theory Spec2Isabelle
  imports Main "HOL-Library.Word"
begin

section \<open>Errors\<close>

text \<open>
  The error values that reach the caller of \<^verbatim>\<open>Parse\<close>, or that the conversions of package
  \<^verbatim>\<open>strconv\<close> and \<^verbatim>\<open>encoding/json\<close> hand to the extractors: \<^verbatim>\<open>ErrorNoMatch\<close> is the
  package's own \<^verbatim>\<open>errors.New("no match")\<close>, \<^verbatim>\<open>TimeParseError\<close> stands for a
  \<^verbatim>\<open>*time.ParseError\<close>, \<^verbatim>\<open>ErrSyntax\<close> and \<^verbatim>\<open>ErrRange\<close> for the two \<^verbatim>\<open>*strconv.NumError\<close>
  causes, \<^verbatim>\<open>JSONError\<close> for any error of \<^verbatim>\<open>json.Unmarshal\<close>.
\<close>

datatype error = ErrorNoMatch | TimeParseError | ErrSyntax | ErrRange | JSONError

section \<open>Regular expressions\<close>

text \<open>
  Strings are byte lists. The patterns of the package use a small part of the syntax of
  package \<^verbatim>\<open>regexp\<close>: literal bytes, the classes \<^verbatim>\<open>.\<close>, \<^verbatim>\<open>\d\<close>, \<^verbatim>\<open>\w\<close> and bracketed unions of
  them, concatenation, alternation, capturing groups, the greedy operators \<^verbatim>\<open>*\<close> and \<^verbatim>\<open>+\<close> on a
  single class, \<^verbatim>\<open>?\<close> on a byte or a group, and \<^verbatim>\<open>{n}\<close> on a class (written out as n copies).
  \<^verbatim>\<open>\d\<close> is \<^verbatim>\<open>[0-9]\<close>, \<^verbatim>\<open>\w\<close> is \<^verbatim>\<open>[0-9A-Za-z_]\<close> and \<^verbatim>\<open>.\<close> is everything but the line feed.
  Every byte a pattern names is ASCII, so matching bytes agrees with matching UTF-8 runes.
\<close>

datatype cls = Any | Digit | Word | Lit char | Union cls cls

definition is_digit :: "char \<Rightarrow> bool" where
  "is_digit c = (c \<in> set ''0123456789'')"

definition is_word :: "char \<Rightarrow> bool" where
  "is_word c =
     (c \<in> set ''0123456789ABCDEFGHIJKLMNOPQRSTUVWXYZ_abcdefghijklmnopqrstuvwxyz'')"

definition newline :: char where
  "newline = CHR 0x0A"

fun accepts :: "cls \<Rightarrow> char \<Rightarrow> bool" where
  "accepts Any c = (c \<noteq> newline)"
| "accepts Digit c = is_digit c"
| "accepts Word c = is_word c"
| "accepts (Lit x) c = (c = x)"
| "accepts (Union a b) c = (accepts a c \<or> accepts b c)"

datatype regex =
    Eps
  | Atom cls
  | Cat regex regex
  | Alt regex regex
  | Star cls
  | Opt regex
  | Group nat regex

definition Str :: "string \<Rightarrow> regex" where
  "Str s = foldr (\<lambda>c r. Cat (Atom (Lit c)) r) s Eps"

definition Plus :: "cls \<Rightarrow> regex" where
  "Plus c = Cat (Atom c) (Star c)"

definition Seq :: "regex list \<Rightarrow> regex" where
  "Seq rs = foldr Cat rs Eps"

fun Alts :: "regex list \<Rightarrow> regex" where
  "Alts [] = Eps"
| "Alts [a] = a"
| "Alts (a # b # bs) = Alt a (Alts (b # bs))"

text \<open>
  Package \<^verbatim>\<open>regexp\<close> returns the match a backtracking search finds first: leftmost, then
  the first alternative that leads to a match, and as many repetitions as lead to one. The
  matcher below is that search, in continuation-passing style: \<open>k\<close> is what remains to be
  matched after the expression at hand, and \<open>None\<close> sends the search back to the last
  choice. The submatches travel with the search, so a choice that is undone takes its
  captures with it.
\<close>

fun star :: "cls \<Rightarrow> string \<Rightarrow> (string \<Rightarrow> 'a option) \<Rightarrow> 'a option" where
  "star c [] k = k []"
| "star c (x # xs) k =
     (if accepts c x
      then (case star c xs k of Some r \<Rightarrow> Some r | None \<Rightarrow> k (x # xs))
      else k (x # xs))"

fun m :: "regex \<Rightarrow> string \<Rightarrow> string list \<Rightarrow> (string \<Rightarrow> string list \<Rightarrow> 'a option) \<Rightarrow> 'a option"
where
  "m Eps s cs k = k s cs"
| "m (Atom c) s cs k =
     (case s of [] \<Rightarrow> None | x # xs \<Rightarrow> if accepts c x then k xs cs else None)"
| "m (Cat a b) s cs k = m a s cs (\<lambda>s' cs'. m b s' cs' k)"
| "m (Alt a b) s cs k = (case m a s cs k of Some r \<Rightarrow> Some r | None \<Rightarrow> m b s cs k)"
| "m (Star c) s cs k = star c s (\<lambda>s'. k s' cs)"
| "m (Opt a) s cs k = (case m a s cs k of Some r \<Rightarrow> Some r | None \<Rightarrow> k s cs)"
| "m (Group n a) s cs k =
     m a s cs (\<lambda>s' cs'. k s' (cs'[n := take (length s - length s') s]))"

fun ngroups :: "regex \<Rightarrow> nat" where
  "ngroups (Cat a b) = ngroups a + ngroups b"
| "ngroups (Alt a b) = ngroups a + ngroups b"
| "ngroups (Opt a) = ngroups a"
| "ngroups (Group n a) = Suc (ngroups a)"
| "ngroups _ = 0"

text \<open>
  \<open>match_here re s\<close> is a match that starts at the first byte of \<open>s\<close>. The result has one
  entry for the whole match and one for each group; a group that took no part in the match
  is the empty string, as in the slice \<^verbatim>\<open>FindStringSubmatch\<close> returns.
\<close>

definition match_here :: "regex \<Rightarrow> string \<Rightarrow> string list option" where
  "match_here re s =
     m re s (replicate (Suc (ngroups re)) [])
       (\<lambda>s' cs. Some (cs[0 := take (length s - length s') s]))"

text \<open>\<^verbatim>\<open>(*Regexp).FindStringSubmatch\<close>: the leftmost match, \<open>None\<close> for Go's \<^verbatim>\<open>nil\<close>.\<close>

fun FindStringSubmatch :: "regex \<Rightarrow> string \<Rightarrow> string list option" where
  "FindStringSubmatch re [] = match_here re []"
| "FindStringSubmatch re (x # xs) =
     (case match_here re (x # xs) of
        Some cs \<Rightarrow> Some cs
      | None \<Rightarrow> FindStringSubmatch re xs)"

text \<open>
  What a match means, without the search: \<open>sem re cs u cs'\<close> says that \<open>re\<close> matches exactly
  the string \<open>u\<close> and turns the submatches \<open>cs\<close> into \<open>cs'\<close>. The search is sound for it.
\<close>

fun sem :: "regex \<Rightarrow> string list \<Rightarrow> string \<Rightarrow> string list \<Rightarrow> bool" where
  "sem Eps cs u cs' = (u = [] \<and> cs' = cs)"
| "sem (Atom c) cs u cs' = ((\<exists>x. u = [x] \<and> accepts c x) \<and> cs' = cs)"
| "sem (Cat a b) cs u cs' =
     (\<exists>u1 u2 cs1. u = u1 @ u2 \<and> sem a cs u1 cs1 \<and> sem b cs1 u2 cs')"
| "sem (Alt a b) cs u cs' = (sem a cs u cs' \<or> sem b cs u cs')"
| "sem (Star c) cs u cs' = ((\<forall>x \<in> set u. accepts c x) \<and> cs' = cs)"
| "sem (Opt a) cs u cs' = (sem a cs u cs' \<or> (u = [] \<and> cs' = cs))"
| "sem (Group n a) cs u cs' = (\<exists>cs1. sem a cs u cs1 \<and> cs' = cs1[n := u])"

section \<open>The patterns\<close>

text \<open>
  Each pattern is the syntax tree of the source's pattern string, groups numbered by their
  opening parenthesis.
\<close>

text \<open>\<^verbatim>\<open>L (\d{2}\/\d{2}\/\d{4} - \d{2}:\d{2}:\d{2}): (.*)\<close>\<close>

definition LogLinePattern :: regex where
  \<open>LogLinePattern = Seq [Str ''L '', Group 1 (Seq [Atom Digit, Atom Digit, Str ''/'',
     Atom Digit, Atom Digit, Str ''/'', Atom Digit, Atom Digit, Atom Digit, Atom Digit,
     Str '' - '', Atom Digit, Atom Digit, Str '':'', Atom Digit, Atom Digit, Str '':'',
     Atom Digit, Atom Digit]), Str '': '', Group 2 (Star Any)]\<close>

text \<open>\<^verbatim>\<open>server_message: "(\w+)"\<close>\<close>

definition ServerMessagePattern :: regex where
  \<open>ServerMessagePattern = Seq [Str ''server_message: "'', Group 1 (Plus Word),
     Str ''"'']\<close>

text \<open>\<^verbatim>\<open>Starting Freeze period\<close>\<close>

definition FreezTimeStartPattern :: regex where
  \<open>FreezTimeStartPattern = Str ''Starting Freeze period''\<close>

text \<open>\<^verbatim>\<open>World triggered "Match_Start" on "(\w+)"\<close>\<close>

definition WorldMatchStartPattern :: regex where
  \<open>WorldMatchStartPattern = Seq [Str ''World triggered "Match_Start" on "'',
     Group 1 (Plus Word), Str ''"'']\<close>

text \<open>\<^verbatim>\<open>World triggered "Round_Start"\<close>\<close>

definition WorldRoundStartPattern :: regex where
  \<open>WorldRoundStartPattern = Str ''World triggered "Round_Start"''\<close>

text \<open>\<^verbatim>\<open>World triggered "Restart_Round_\((\d+)_second\)\<close>\<close>

definition WorldRoundRestartPattern :: regex where
  \<open>WorldRoundRestartPattern = Seq [Str ''World triggered "Restart_Round_('',
     Group 1 (Plus Digit), Str ''_second)'']\<close>

text \<open>\<^verbatim>\<open>World triggered "Round_End"\<close>\<close>

definition WorldRoundEndPattern :: regex where
  \<open>WorldRoundEndPattern = Str ''World triggered "Round_End"''\<close>

text \<open>\<^verbatim>\<open>World triggered "Game_Commencing"\<close>\<close>

definition WorldGameCommencingPattern :: regex where
  \<open>WorldGameCommencingPattern = Str ''World triggered "Game_Commencing"''\<close>

text \<open>\<^verbatim>\<open>Team "(CT|TERRORIST)" scored "(\d+)" with "(\d+)" players\<close>\<close>

definition TeamScoredPattern :: regex where
  \<open>TeamScoredPattern = Seq [Str ''Team "'', Group 1 (Alts [Str ''CT'',
     Str ''TERRORIST'']), Str ''" scored "'', Group 2 (Plus Digit), Str ''" with "'',
     Group 3 (Plus Digit), Str ''" players'']\<close>

text \<open>\<^verbatim>\<open>Team "(CT|TERRORIST)" triggered "(\w+)" \(CT "(\d+)"\) \(T "(\d+)"\)\<close>\<close>

definition TeamNoticePattern :: regex where
  \<open>TeamNoticePattern = Seq [Str ''Team "'', Group 1 (Alts [Str ''CT'',
     Str ''TERRORIST'']), Str ''" triggered "'', Group 2 (Plus Word), Str ''" (CT "'',
     Group 3 (Plus Digit), Str ''") (T "'', Group 4 (Plus Digit), Str ''")'']\<close>

text \<open>\<^verbatim>\<open>"(.+)<(\d+)><([\w:]+)><>" connected, address "(.*)"\<close>\<close>

definition PlayerConnectedPattern :: regex where
  \<open>PlayerConnectedPattern = Seq [Str ''"'', Group 1 (Plus Any), Str ''<'',
     Group 2 (Plus Digit), Str ''><'', Group 3 (Plus (Union Word (Lit CHR '':''))),
     Str ''><>" connected, address "'', Group 4 (Star Any), Str ''"'']\<close>

text \<open>\<^verbatim>\<open>"(.+)<(\d+)><([\w:]+)><(TERRORIST|CT|Unassigned|)>" disconnected \(reason "(.+)"\)\<close>\<close>

definition PlayerDisconnectedPattern :: regex where
  \<open>PlayerDisconnectedPattern = Seq [Str ''"'', Group 1 (Plus Any), Str ''<'',
     Group 2 (Plus Digit), Str ''><'', Group 3 (Plus (Union Word (Lit CHR '':''))), Str ''><'',
     Group 4 (Alts [Str ''TERRORIST'', Str ''CT'', Str ''Unassigned'', Eps]),
     Str ''>" disconnected (reason "'', Group 5 (Plus Any), Str ''")'']\<close>

text \<open>\<^verbatim>\<open>"(.+)<(\d+)><([\w:]+)><>" entered the game\<close>\<close>

definition PlayerEnteredPattern :: regex where
  \<open>PlayerEnteredPattern = Seq [Str ''"'', Group 1 (Plus Any), Str ''<'',
     Group 2 (Plus Digit), Str ''><'', Group 3 (Plus (Union Word (Lit CHR '':''))),
     Str ''><>" entered the game'']\<close>

text \<open>\<^verbatim>\<open>Banid: "(.+)<(\d+)><([\w:]+)><\w*>" was banned "([\w. ]+)" by "(\w+)"\<close>\<close>

definition PlayerBannedPattern :: regex where
  \<open>PlayerBannedPattern = Seq [Str ''Banid: "'', Group 1 (Plus Any), Str ''<'',
     Group 2 (Plus Digit), Str ''><'', Group 3 (Plus (Union Word (Lit CHR '':''))), Str ''><'',
     Star Word, Str ''>" was banned "'',
     Group 4 (Plus (Union Word (Union (Lit CHR ''.'') (Lit CHR '' '')))), Str ''" by "'',
     Group 5 (Plus Word), Str ''"'']\<close>

text \<open>\<^verbatim>\<open>"(.+)<(\d+)><([\w:]+)>" switched from team <(Unassigned|Spectator|TERRORIST|CT)> to <(Unassigned|Spectator|TERRORIST|CT)>\<close>\<close>

definition PlayerSwitchedPattern :: regex where
  \<open>PlayerSwitchedPattern = Seq [Str ''"'', Group 1 (Plus Any), Str ''<'',
     Group 2 (Plus Digit), Str ''><'', Group 3 (Plus (Union Word (Lit CHR '':''))),
     Str ''>" switched from team <'', Group 4 (Alts [Str ''Unassigned'', Str ''Spectator'',
     Str ''TERRORIST'', Str ''CT'']), Str ''> to <'', Group 5 (Alts [Str ''Unassigned'',
     Str ''Spectator'', Str ''TERRORIST'', Str ''CT'']), Str ''>'']\<close>

text \<open>\<^verbatim>\<open>"(.+)<(\d+)><([\w:]+)><(TERRORIST|CT)>" say(_team)? "(.*)"\<close>\<close>

definition PlayerSayPattern :: regex where
  \<open>PlayerSayPattern = Seq [Str ''"'', Group 1 (Plus Any), Str ''<'',
     Group 2 (Plus Digit), Str ''><'', Group 3 (Plus (Union Word (Lit CHR '':''))), Str ''><'',
     Group 4 (Alts [Str ''TERRORIST'', Str ''CT'']), Str ''>" say'',
     Opt (Group 5 (Str ''_team'')), Str '' "'', Group 6 (Star Any), Str ''"'']\<close>

text \<open>\<^verbatim>\<open>"(.+)<(\d+)><([\w:]+)><(TERRORIST|CT)>" purchased "(\w+)"\<close>\<close>

definition PlayerPurchasePattern :: regex where
  \<open>PlayerPurchasePattern = Seq [Str ''"'', Group 1 (Plus Any), Str ''<'',
     Group 2 (Plus Digit), Str ''><'', Group 3 (Plus (Union Word (Lit CHR '':''))), Str ''><'',
     Group 4 (Alts [Str ''TERRORIST'', Str ''CT'']), Str ''>" purchased "'',
     Group 5 (Plus Word), Str ''"'']\<close>

text \<open>\<^verbatim>\<open>"(.+)<(\d+)><([\w:]+)><(TERRORIST|CT)>" \[(-?\d+) (-?\d+) (-?\d+)\] killed "(.+)<(\d+)><([\w:]+)><(TERRORIST|CT)>" \[(-?\d+) (-?\d+) (-?\d+)\] with "(\w+)" ?(\(?(headshot|penetrated|headshot penetrated)?\))?\<close>\<close>

definition PlayerKillPattern :: regex where
  \<open>PlayerKillPattern = Seq [Str ''"'', Group 1 (Plus Any), Str ''<'',
     Group 2 (Plus Digit), Str ''><'', Group 3 (Plus (Union Word (Lit CHR '':''))), Str ''><'',
     Group 4 (Alts [Str ''TERRORIST'', Str ''CT'']), Str ''>" ['',
     Group 5 (Seq [Opt (Atom (Lit CHR ''-'')), Plus Digit]), Str '' '',
     Group 6 (Seq [Opt (Atom (Lit CHR ''-'')), Plus Digit]), Str '' '',
     Group 7 (Seq [Opt (Atom (Lit CHR ''-'')), Plus Digit]), Str ''] killed "'',
     Group 8 (Plus Any), Str ''<'', Group 9 (Plus Digit), Str ''><'',
     Group 10 (Plus (Union Word (Lit CHR '':''))), Str ''><'',
     Group 11 (Alts [Str ''TERRORIST'', Str ''CT'']), Str ''>" ['',
     Group 12 (Seq [Opt (Atom (Lit CHR ''-'')), Plus Digit]), Str '' '',
     Group 13 (Seq [Opt (Atom (Lit CHR ''-'')), Plus Digit]), Str '' '',
     Group 14 (Seq [Opt (Atom (Lit CHR ''-'')), Plus Digit]), Str ''] with "'',
     Group 15 (Plus Word), Str ''"'', Opt (Atom (Lit CHR '' '')),
     Opt (Group 16 (Seq [Opt (Atom (Lit CHR ''('')), Opt (Group 17 (Alts [Str ''headshot'',
     Str ''penetrated'', Str ''headshot penetrated''])), Str '')'']))]\<close>

text \<open>\<^verbatim>\<open>"(.+)<(\d+)><([\w:]+)><(TERRORIST|CT)>" assisted killing "(.+)<(\d+)><([\w:]+)><(TERRORIST|CT)>"\<close>\<close>

definition PlayerKillAssistPattern :: regex where
  \<open>PlayerKillAssistPattern = Seq [Str ''"'', Group 1 (Plus Any), Str ''<'',
     Group 2 (Plus Digit), Str ''><'', Group 3 (Plus (Union Word (Lit CHR '':''))), Str ''><'',
     Group 4 (Alts [Str ''TERRORIST'', Str ''CT'']), Str ''>" assisted killing "'',
     Group 5 (Plus Any), Str ''<'', Group 6 (Plus Digit), Str ''><'',
     Group 7 (Plus (Union Word (Lit CHR '':''))), Str ''><'', Group 8 (Alts [Str ''TERRORIST'',
     Str ''CT'']), Str ''>"'']\<close>

text \<open>\<^verbatim>\<open>"(.+)<(\d+)><([\w:]+)><(TERRORIST|CT)>" \[(-?\d+) (-?\d+) (-?\d+)\] attacked "(.+)<(\d+)><([\w:]+)><(TERRORIST|CT)>" \[(-?\d+) (-?\d+) (-?\d+)\] with "(\w+)" \(damage "(\d+)"\) \(damage_armor "(\d+)"\) \(health "(\d+)"\) \(armor "(\d+)"\) \(hitgroup "([\w ]+)"\)\<close>\<close>

definition PlayerAttackPattern :: regex where
  \<open>PlayerAttackPattern = Seq [Str ''"'', Group 1 (Plus Any), Str ''<'',
     Group 2 (Plus Digit), Str ''><'', Group 3 (Plus (Union Word (Lit CHR '':''))), Str ''><'',
     Group 4 (Alts [Str ''TERRORIST'', Str ''CT'']), Str ''>" ['',
     Group 5 (Seq [Opt (Atom (Lit CHR ''-'')), Plus Digit]), Str '' '',
     Group 6 (Seq [Opt (Atom (Lit CHR ''-'')), Plus Digit]), Str '' '',
     Group 7 (Seq [Opt (Atom (Lit CHR ''-'')), Plus Digit]), Str ''] attacked "'',
     Group 8 (Plus Any), Str ''<'', Group 9 (Plus Digit), Str ''><'',
     Group 10 (Plus (Union Word (Lit CHR '':''))), Str ''><'',
     Group 11 (Alts [Str ''TERRORIST'', Str ''CT'']), Str ''>" ['',
     Group 12 (Seq [Opt (Atom (Lit CHR ''-'')), Plus Digit]), Str '' '',
     Group 13 (Seq [Opt (Atom (Lit CHR ''-'')), Plus Digit]), Str '' '',
     Group 14 (Seq [Opt (Atom (Lit CHR ''-'')), Plus Digit]), Str ''] with "'',
     Group 15 (Plus Word), Str ''" (damage "'', Group 16 (Plus Digit),
     Str ''") (damage_armor "'', Group 17 (Plus Digit), Str ''") (health "'',
     Group 18 (Plus Digit), Str ''") (armor "'', Group 19 (Plus Digit), Str ''") (hitgroup "'',
     Group 20 (Plus (Union Word (Lit CHR '' ''))), Str ''")'']\<close>

text \<open>\<^verbatim>\<open>"(.+)<(\d+)><([\w:]+)><(TERRORIST|CT)>" \[(-?\d+) (-?\d+) (-?\d+)\] was killed by the bomb\.\<close>\<close>

definition PlayerKilledBombPattern :: regex where
  \<open>PlayerKilledBombPattern = Seq [Str ''"'', Group 1 (Plus Any), Str ''<'',
     Group 2 (Plus Digit), Str ''><'', Group 3 (Plus (Union Word (Lit CHR '':''))), Str ''><'',
     Group 4 (Alts [Str ''TERRORIST'', Str ''CT'']), Str ''>" ['',
     Group 5 (Seq [Opt (Atom (Lit CHR ''-'')), Plus Digit]), Str '' '',
     Group 6 (Seq [Opt (Atom (Lit CHR ''-'')), Plus Digit]), Str '' '',
     Group 7 (Seq [Opt (Atom (Lit CHR ''-'')), Plus Digit]),
     Str ''] was killed by the bomb.'']\<close>

text \<open>\<^verbatim>\<open>"(.+)<(\d+)><([\w:]+)><(TERRORIST|CT)>" \[(-?\d+) (-?\d+) (-?\d+)\] committed suicide with "(.*)"\<close>\<close>

definition PlayerKilledSuicidePattern :: regex where
  \<open>PlayerKilledSuicidePattern = Seq [Str ''"'', Group 1 (Plus Any), Str ''<'',
     Group 2 (Plus Digit), Str ''><'', Group 3 (Plus (Union Word (Lit CHR '':''))), Str ''><'',
     Group 4 (Alts [Str ''TERRORIST'', Str ''CT'']), Str ''>" ['',
     Group 5 (Seq [Opt (Atom (Lit CHR ''-'')), Plus Digit]), Str '' '',
     Group 6 (Seq [Opt (Atom (Lit CHR ''-'')), Plus Digit]), Str '' '',
     Group 7 (Seq [Opt (Atom (Lit CHR ''-'')), Plus Digit]),
     Str ''] committed suicide with "'', Group 8 (Star Any), Str ''"'']\<close>

text \<open>\<^verbatim>\<open>"(.+)<(\d+)><([\w:]+)><(TERRORIST|CT)>" picked up "(\w+)"\<close>\<close>

definition PlayerPickedUpPattern :: regex where
  \<open>PlayerPickedUpPattern = Seq [Str ''"'', Group 1 (Plus Any), Str ''<'',
     Group 2 (Plus Digit), Str ''><'', Group 3 (Plus (Union Word (Lit CHR '':''))), Str ''><'',
     Group 4 (Alts [Str ''TERRORIST'', Str ''CT'']), Str ''>" picked up "'',
     Group 5 (Plus Word), Str ''"'']\<close>

text \<open>\<^verbatim>\<open>"(.+)<(\d+)><([\w:]+)><(TERRORIST|CT|Unassigned)>" dropped "(\w+)"\<close>\<close>

definition PlayerDroppedPattern :: regex where
  \<open>PlayerDroppedPattern = Seq [Str ''"'', Group 1 (Plus Any), Str ''<'',
     Group 2 (Plus Digit), Str ''><'', Group 3 (Plus (Union Word (Lit CHR '':''))), Str ''><'',
     Group 4 (Alts [Str ''TERRORIST'', Str ''CT'', Str ''Unassigned'']), Str ''>" dropped "'',
     Group 5 (Plus Word), Str ''"'']\<close>

text \<open>\<^verbatim>\<open>"(.+)<(\d+)><([\w:]+)><(TERRORIST|CT)>" money change (\d+)\+?(-?\d+) = \$(\d+) \(tracked\)( \(purchase: (\w+)\))?\<close>\<close>

definition PlayerMoneyChangePattern :: regex where
  \<open>PlayerMoneyChangePattern = Seq [Str ''"'', Group 1 (Plus Any), Str ''<'',
     Group 2 (Plus Digit), Str ''><'', Group 3 (Plus (Union Word (Lit CHR '':''))), Str ''><'',
     Group 4 (Alts [Str ''TERRORIST'', Str ''CT'']), Str ''>" money change '',
     Group 5 (Plus Digit), Opt (Atom (Lit CHR ''+'')),
     Group 6 (Seq [Opt (Atom (Lit CHR ''-'')), Plus Digit]), Str '' = $'',
     Group 7 (Plus Digit), Str '' (tracked)'', Opt (Group 8 (Seq [Str '' (purchase: '',
     Group 9 (Plus Word), Str '')'']))]\<close>

text \<open>\<^verbatim>\<open>"(.+)<(\d+)><([\w:]+)><(TERRORIST|CT)>" triggered "Got_The_Bomb"\<close>\<close>

definition PlayerBombGotPattern :: regex where
  \<open>PlayerBombGotPattern = Seq [Str ''"'', Group 1 (Plus Any), Str ''<'',
     Group 2 (Plus Digit), Str ''><'', Group 3 (Plus (Union Word (Lit CHR '':''))), Str ''><'',
     Group 4 (Alts [Str ''TERRORIST'', Str ''CT'']),
     Str ''>" triggered "Got_The_Bomb"'']\<close>

text \<open>\<^verbatim>\<open>"(.+)<(\d+)><([\w:]+)><(TERRORIST|CT)>" triggered "Planted_The_Bomb"\<close>\<close>

definition PlayerBombPlantedPattern :: regex where
  \<open>PlayerBombPlantedPattern = Seq [Str ''"'', Group 1 (Plus Any), Str ''<'',
     Group 2 (Plus Digit), Str ''><'', Group 3 (Plus (Union Word (Lit CHR '':''))), Str ''><'',
     Group 4 (Alts [Str ''TERRORIST'', Str ''CT'']),
     Str ''>" triggered "Planted_The_Bomb"'']\<close>

text \<open>\<^verbatim>\<open>"(.+)<(\d+)><([\w:]+)><(TERRORIST|CT)>" triggered "Dropped_The_Bomb"\<close>\<close>

definition PlayerBombDroppedPattern :: regex where
  \<open>PlayerBombDroppedPattern = Seq [Str ''"'', Group 1 (Plus Any), Str ''<'',
     Group 2 (Plus Digit), Str ''><'', Group 3 (Plus (Union Word (Lit CHR '':''))), Str ''><'',
     Group 4 (Alts [Str ''TERRORIST'', Str ''CT'']),
     Str ''>" triggered "Dropped_The_Bomb"'']\<close>

text \<open>\<^verbatim>\<open>"(.+)<(\d+)><([\w:]+)><(TERRORIST|CT)>" triggered "Begin_Bomb_Defuse_With(out)?_Kit"\<close>\<close>

definition PlayerBombBeginDefusePattern :: regex where
  \<open>PlayerBombBeginDefusePattern = Seq [Str ''"'', Group 1 (Plus Any), Str ''<'',
     Group 2 (Plus Digit), Str ''><'', Group 3 (Plus (Union Word (Lit CHR '':''))), Str ''><'',
     Group 4 (Alts [Str ''TERRORIST'', Str ''CT'']),
     Str ''>" triggered "Begin_Bomb_Defuse_With'', Opt (Group 5 (Str ''out'')),
     Str ''_Kit"'']\<close>

text \<open>\<^verbatim>\<open>"(.+)<(\d+)><([\w:]+)><(TERRORIST|CT)>" triggered "Defused_The_Bomb"\<close>\<close>

definition PlayerBombDefusedPattern :: regex where
  \<open>PlayerBombDefusedPattern = Seq [Str ''"'', Group 1 (Plus Any), Str ''<'',
     Group 2 (Plus Digit), Str ''><'', Group 3 (Plus (Union Word (Lit CHR '':''))), Str ''><'',
     Group 4 (Alts [Str ''TERRORIST'', Str ''CT'']),
     Str ''>" triggered "Defused_The_Bomb"'']\<close>

text \<open>\<^verbatim>\<open>"(.+)<(\d+)><([\w:]+)><(TERRORIST|CT)>" threw (\w+) \[(-?\d+) (-?\d+) (-?\d+)\]( flashbang entindex (\d+))?\)?\<close>\<close>

definition PlayerThrewPattern :: regex where
  \<open>PlayerThrewPattern = Seq [Str ''"'', Group 1 (Plus Any), Str ''<'',
     Group 2 (Plus Digit), Str ''><'', Group 3 (Plus (Union Word (Lit CHR '':''))), Str ''><'',
     Group 4 (Alts [Str ''TERRORIST'', Str ''CT'']), Str ''>" threw '', Group 5 (Plus Word),
     Str '' ['', Group 6 (Seq [Opt (Atom (Lit CHR ''-'')), Plus Digit]), Str '' '',
     Group 7 (Seq [Opt (Atom (Lit CHR ''-'')), Plus Digit]), Str '' '',
     Group 8 (Seq [Opt (Atom (Lit CHR ''-'')), Plus Digit]), Str '']'',
     Opt (Group 9 (Seq [Str '' flashbang entindex '', Group 10 (Plus Digit)])),
     Opt (Atom (Lit CHR '')''))]\<close>

text \<open>\<^verbatim>\<open>"(.+)<(\d+)><([\w:]+)><(TERRORIST|CT)>" blinded for ([\d.]+) by "(.+)<(\d+)><([\w:]+)><(TERRORIST|CT)>" from flashbang entindex (\d+)\<close>\<close>

definition PlayerBlindedPattern :: regex where
  \<open>PlayerBlindedPattern = Seq [Str ''"'', Group 1 (Plus Any), Str ''<'',
     Group 2 (Plus Digit), Str ''><'', Group 3 (Plus (Union Word (Lit CHR '':''))), Str ''><'',
     Group 4 (Alts [Str ''TERRORIST'', Str ''CT'']), Str ''>" blinded for '',
     Group 5 (Plus (Union Digit (Lit CHR ''.''))), Str '' by "'', Group 6 (Plus Any),
     Str ''<'', Group 7 (Plus Digit), Str ''><'', Group 8 (Plus (Union Word (Lit CHR '':''))),
     Str ''><'', Group 9 (Alts [Str ''TERRORIST'', Str ''CT'']),
     Str ''>" from flashbang entindex '', Group 10 (Plus Digit)]\<close>

text \<open>\<^verbatim>\<open>Molotov projectile spawned at (-?\d+\.\d+) (-?\d+\.\d+) (-?\d+\.\d+), velocity (-?\d+\.\d+) (-?\d+\.\d+) (-?\d+\.\d+)\<close>\<close>

definition ProjectileSpawnedPattern :: regex where
  \<open>ProjectileSpawnedPattern = Seq [Str ''Molotov projectile spawned at '',
     Group 1 (Seq [Opt (Atom (Lit CHR ''-'')), Plus Digit, Str ''.'', Plus Digit]), Str '' '',
     Group 2 (Seq [Opt (Atom (Lit CHR ''-'')), Plus Digit, Str ''.'', Plus Digit]), Str '' '',
     Group 3 (Seq [Opt (Atom (Lit CHR ''-'')), Plus Digit, Str ''.'', Plus Digit]),
     Str '', velocity '', Group 4 (Seq [Opt (Atom (Lit CHR ''-'')), Plus Digit, Str ''.'',
     Plus Digit]), Str '' '', Group 5 (Seq [Opt (Atom (Lit CHR ''-'')), Plus Digit, Str ''.'',
     Plus Digit]), Str '' '', Group 6 (Seq [Opt (Atom (Lit CHR ''-'')), Plus Digit, Str ''.'',
     Plus Digit])]\<close>

text \<open>\<^verbatim>\<open>Game Over: (\w+) (\w+) (\w+) score (\d+):(\d+) after (\d+) min\<close>\<close>

definition GameOverPattern :: regex where
  \<open>GameOverPattern = Seq [Str ''Game Over: '', Group 1 (Plus Word), Str '' '',
     Group 2 (Plus Word), Str '' '', Group 3 (Plus Word), Str '' score '',
     Group 4 (Plus Digit), Str '':'', Group 5 (Plus Digit), Str '' after '',
     Group 6 (Plus Digit), Str '' min'']\<close>

text \<open>\<^verbatim>\<open>server_cvar: "(\w+)" "(.*)"\<close>\<close>

definition ServerCvarPattern :: regex where
  \<open>ServerCvarPattern = Seq [Str ''server_cvar: "'', Group 1 (Plus Word), Str ''" "'',
     Group 2 (Star Any), Str ''"'']\<close>

text \<open>\<^verbatim>\<open>get5_event: {"matchid(.*)":"(\w*)","params":(.*),"event":"(series_start|map_veto|map_pick|side_picked|knife_start|knife_won|going_live|player_death|round_end|side_swap|map_end|series_end|backup_loaded|match_config_load_fail|client_say|bomb_planted|bomb_defused|bomb_exploded|player_connect|player_disconnect|team_ready|team_unready)"}\<close>\<close>

definition Get5EventPattern :: regex where
  \<open>Get5EventPattern = Seq [Str ''get5_event: {"matchid'', Group 1 (Star Any),
     Str ''":"'', Group 2 (Star Word), Str ''","params":'', Group 3 (Star Any),
     Str '',"event":"'', Group 4 (Alts [Str ''series_start'', Str ''map_veto'',
     Str ''map_pick'', Str ''side_picked'', Str ''knife_start'', Str ''knife_won'',
     Str ''going_live'', Str ''player_death'', Str ''round_end'', Str ''side_swap'',
     Str ''map_end'', Str ''series_end'', Str ''backup_loaded'',
     Str ''match_config_load_fail'', Str ''client_say'', Str ''bomb_planted'',
     Str ''bomb_defused'', Str ''bomb_exploded'', Str ''player_connect'',
     Str ''player_disconnect'', Str ''team_ready'', Str ''team_unready'']), Str ''"}'']\<close>

text \<open>\<^verbatim>\<open>rcon from "(.*):(\d+)": command "(.*)"\<close>\<close>

definition RconEventPattern :: regex where
  \<open>RconEventPattern = Seq [Str ''rcon from "'', Group 1 (Star Any), Str '':'',
     Group 2 (Plus Digit), Str ''": command "'', Group 3 (Star Any), Str ''"'']\<close>

text \<open>\<^verbatim>\<open>"(.+)<(\d+)><([\w:]+)><(TERRORIST|CT)>" \[(-?\d+) (-?\d+) (-?\d+)\] killed other "(.+)<(\d+)>" \[(-?\d+) (-?\d+) (-?\d+)\] with "(\w+)"\<close>\<close>

definition PlayerKillOtherPattern :: regex where
  \<open>PlayerKillOtherPattern = Seq [Str ''"'', Group 1 (Plus Any), Str ''<'',
     Group 2 (Plus Digit), Str ''><'', Group 3 (Plus (Union Word (Lit CHR '':''))), Str ''><'',
     Group 4 (Alts [Str ''TERRORIST'', Str ''CT'']), Str ''>" ['',
     Group 5 (Seq [Opt (Atom (Lit CHR ''-'')), Plus Digit]), Str '' '',
     Group 6 (Seq [Opt (Atom (Lit CHR ''-'')), Plus Digit]), Str '' '',
     Group 7 (Seq [Opt (Atom (Lit CHR ''-'')), Plus Digit]), Str ''] killed other "'',
     Group 8 (Plus Any), Str ''<'', Group 9 (Plus Digit), Str ''>" ['',
     Group 10 (Seq [Opt (Atom (Lit CHR ''-'')), Plus Digit]), Str '' '',
     Group 11 (Seq [Opt (Atom (Lit CHR ''-'')), Plus Digit]), Str '' '',
     Group 12 (Seq [Opt (Atom (Lit CHR ''-'')), Plus Digit]), Str ''] with "'',
     Group 13 (Plus Word), Str ''"'']\<close>

section \<open>Numeric conversions\<close>

definition digit_val :: "char \<Rightarrow> int" where
  "digit_val c = of_char c - of_char CHR ''0''"

definition decimal :: "string \<Rightarrow> int" where
  "decimal s = foldl (\<lambda>n c. 10 * n + digit_val c) 0 s"

text \<open>
  \<^verbatim>\<open>strconv.Atoi\<close> on a 64-bit platform: an optional sign, then one or more decimal digits
  and nothing else, or \<^verbatim>\<open>ErrSyntax\<close>; a value outside the range of \<^verbatim>\<open>int\<close> is
  \<^verbatim>\<open>ErrRange\<close>.
\<close>

definition Atoi :: "string \<Rightarrow> error + int" where
  "Atoi s =
     (let neg = (s \<noteq> [] \<and> hd s = CHR ''-'');
          digits = (if s \<noteq> [] \<and> (hd s = CHR ''-'' \<or> hd s = CHR ''+'') then tl s else s)
      in if digits = [] \<or> \<not> list_all is_digit digits then Inl ErrSyntax
         else let n = (if neg then - decimal digits else decimal digits)
              in if n < - (2 ^ 63) \<or> 2 ^ 63 - 1 < n then Inl ErrRange else Inr n)"

text \<open>\<^verbatim>\<open>toInt\<close> converts string to int, assigns 0 when not convertable.\<close>

definition toInt :: "string \<Rightarrow> int" where
  "toInt v = (case Atoi v of Inl err \<Rightarrow> 0 | Inr i \<Rightarrow> i)"

text \<open>A \<^verbatim>\<open>float32\<close> is its 32 bits; \<^verbatim>\<open>float32(0)\<close> is the word 0.\<close>

type_synonym float32 = "32 word"

section \<open>Time\<close>

text \<open>
  A \<^verbatim>\<open>time.Time\<close> as \<^verbatim>\<open>time.Parse\<close> returns it for a layout without zone and without fractions
  of a second: the calendar fields, in UTC.
\<close>

record Time =
  Year :: int
  Month :: int
  Day :: int
  Hour :: int
  Minute :: int
  Second :: int

text \<open>
  \<open>fits tmpl s\<close>: the string has the length of the template, a decimal digit where the
  template has the letter d and the template's own byte everywhere else.
\<close>

definition fits :: "string \<Rightarrow> string \<Rightarrow> bool" where
  "fits tmpl s = list_all2 (\<lambda>t c. if t = CHR ''d'' then is_digit c else c = t) tmpl s"

definition isLeap :: "int \<Rightarrow> bool" where
  "isLeap year = (year mod 4 = 0 \<and> (year mod 100 \<noteq> 0 \<or> year mod 400 = 0))"

definition daysIn :: "int \<Rightarrow> int \<Rightarrow> int" where
  "daysIn month year =
     (if month = 2 then (if isLeap year then 29 else 28)
      else if month = 4 \<or> month = 6 \<or> month = 9 \<or> month = 11 then 30
      else 31)"

text \<open>
  \<^verbatim>\<open>time.Parse("01/02/2006 - 15:04:05", v)\<close> on the strings the first group of
  \<^verbatim>\<open>LogLinePattern\<close> can hold. The month must be 1 to 12, the day one of the month in that
  year, the hour below 24, minute and second below 60; every other value is a
  \<^verbatim>\<open>*time.ParseError\<close>.
\<close>

definition time_Parse :: "string \<Rightarrow> error + Time" where
  "time_Parse v =
     (if \<not> fits ''dd/dd/dddd - dd:dd:dd'' v then Inl TimeParseError
      else let month = decimal (take 2 v);
               day = decimal (take 2 (drop 3 v));
               year = decimal (take 4 (drop 6 v));
               hour = decimal (take 2 (drop 13 v));
               min = decimal (take 2 (drop 16 v));
               sec = decimal (take 2 (drop 19 v))
           in if month < 1 \<or> 12 < month \<or> 24 \<le> hour \<or> 60 \<le> min \<or> 60 \<le> sec
                 \<or> day < 1 \<or> daysIn month year < day
              then Inl TimeParseError
              else Inr \<lparr>Year = year, Month = month, Day = day,
                        Hour = hour, Minute = min, Second = sec\<rparr>)"

section \<open>Messages\<close>

record Player =
  Name :: string
  ID :: int
  SteamID :: string
  Side :: string

text \<open>
  \<^verbatim>\<open>Position\<close>, \<^verbatim>\<open>PositionFloat\<close> and \<^verbatim>\<open>Velocity\<close> have the same three fields, of type
  \<^verbatim>\<open>int\<close> in the first and \<^verbatim>\<open>float32\<close> in the other two.
\<close>

record 'a Vec3 =
  X :: 'a
  Y :: 'a
  Z :: 'a

type_synonym Position = "int Vec3"

type_synonym PositionFloat = "float32 Vec3"

type_synonym Velocity = "float32 Vec3"

record Equation =
  A :: int
  B :: int
  Result :: int

record Meta =
  Time :: Time
  Type :: string

record Get5EventParams =
  MapNumber :: int
  MapName :: string
  Team1Name :: string
  Team1Score :: int
  Team1SeriesScore :: int
  Team2Name :: string
  Team2Score :: int
  Team2SeriesScore :: int
  Headshot :: int
  Weapon :: string
  Reason :: int
  Message :: string
  File :: string
  Site :: int
  Stage :: string
  Victim :: string
  Attacker :: string

text \<open>
  The dynamic types behind the interface \<^verbatim>\<open>Message\<close>, one constructor for each struct, with
  the embedded \<^verbatim>\<open>Meta\<close> first and the other fields in the order of the struct's declaration.
  \<open>meta\<close> reads the embedded struct, so \<^verbatim>\<open>GetType\<close> is \<open>Type (meta msg)\<close> and \<^verbatim>\<open>GetTime\<close> is
  \<open>Time (meta msg)\<close>.
\<close>

datatype Message =
    ServerMessage (meta: Meta) string
  | FreezTimeStart (meta: Meta)
  | WorldMatchStart (meta: Meta) string
  | WorldRoundStart (meta: Meta)
  | WorldRoundRestart (meta: Meta) int
  | WorldRoundEnd (meta: Meta)
  | WorldGameCommencing (meta: Meta)
  | TeamScored (meta: Meta) string int int
  | TeamNotice (meta: Meta) string string int int
  | PlayerConnected (meta: Meta) Player string
  | PlayerDisconnected (meta: Meta) Player string
  | PlayerEntered (meta: Meta) Player
  | PlayerBanned (meta: Meta) Player string string
  | PlayerSwitched (meta: Meta) Player string string
  | PlayerSay (meta: Meta) Player string bool
  | PlayerPurchase (meta: Meta) Player string
  | PlayerKill (meta: Meta) Player Position Player Position string bool bool
  | PlayerKillAssist (meta: Meta) Player Player
  | PlayerAttack (meta: Meta) Player Position Player Position string int int int int string
  | PlayerKilledBomb (meta: Meta) Player Position
  | PlayerKilledSuicide (meta: Meta) Player Position string
  | PlayerPickedUp (meta: Meta) Player string
  | PlayerDropped (meta: Meta) Player string
  | PlayerMoneyChange (meta: Meta) Player Equation string
  | PlayerBombGot (meta: Meta) Player
  | PlayerBombPlanted (meta: Meta) Player
  | PlayerBombDropped (meta: Meta) Player
  | PlayerBombBeginDefuse (meta: Meta) Player bool
  | PlayerBombDefused (meta: Meta) Player
  | PlayerThrew (meta: Meta) Player Position int string
  | PlayerBlinded (meta: Meta) Player Player float32 int
  | ProjectileSpawned (meta: Meta) PositionFloat Velocity
  | GameOver (meta: Meta) string string string int int int
  | ServerCvar (meta: Meta) string string
  | Get5Event (meta: Meta) string Get5EventParams string
  | Rcon (meta: Meta) string "64 word" string
  | PlayerKillOther (meta: Meta) Player Position string string Position string
  | Unknown (meta: Meta) string

text \<open>
  The two conversions of the standard library that the package calls and that are not
  modelled here are parameters of the model: \<open>Unmarshal s\<close> is
  \<^verbatim>\<open>json.Unmarshal([]byte(s), &p)\<close> for a zero \<^verbatim>\<open>Get5EventParams\<close> \<^verbatim>\<open>p\<close>, returning the error or
  the decoded \<^verbatim>\<open>p\<close>, and \<open>ParseFloat s\<close> is \<^verbatim>\<open>strconv.ParseFloat(s, 32)\<close> with its result
  converted to \<^verbatim>\<open>float32\<close>.
\<close>

record stdlib =
  Unmarshal :: "string \<Rightarrow> error + Get5EventParams"
  ParseFloat :: "string \<Rightarrow> error + float32"

definition toFloat32 :: "stdlib \<Rightarrow> string \<Rightarrow> float32" where
  "toFloat32 lib v = (case ParseFloat lib v of Inl err \<Rightarrow> 0 | Inr i \<Rightarrow> i)"

text \<open>\<^verbatim>\<open>strings.Contains\<close>.\<close>

fun Contains :: "string \<Rightarrow> string \<Rightarrow> bool" where
  "Contains [] substr = (substr = [])"
| "Contains (c # cs) substr = (take (length substr) (c # cs) = substr \<or> Contains cs substr)"

section \<open>The extractors\<close>

text \<open>
  A \<^verbatim>\<open>MessageFunc\<close> reads the submatches \<open>r\<close> by constant index. Reading past the end of the
  slice is a run-time panic, which is the result \<open>None\<close>: an extractor that reads up to
  index n panics exactly when \<open>length r \<le> n\<close>.
\<close>

type_synonym MessageFunc = "Time \<Rightarrow> string list \<Rightarrow> Message option"

definition NewMeta :: "Time \<Rightarrow> string \<Rightarrow> Meta" where
  "NewMeta ti ty = \<lparr>Time = ti, Type = ty\<rparr>"

definition NewUnknown :: MessageFunc where
  "NewUnknown ti r =
     (if length r \<le> 1 then None
      else Some (Unknown (NewMeta ti ''Unknown'') (r ! 1)))"

definition NewServerMessage :: MessageFunc where
  "NewServerMessage ti r =
     (if length r \<le> 1 then None
      else Some (ServerMessage (NewMeta ti ''ServerMessage'') (r ! 1)))"

definition NewFreezTimeStart :: MessageFunc where
  "NewFreezTimeStart ti r = Some (FreezTimeStart (NewMeta ti ''FreezTimeStart''))"

definition NewWorldMatchStart :: MessageFunc where
  "NewWorldMatchStart ti r =
     (if length r \<le> 1 then None
      else Some (WorldMatchStart (NewMeta ti ''WorldMatchStart'') (r ! 1)))"

definition NewWorldRoundStart :: MessageFunc where
  "NewWorldRoundStart ti r = Some (WorldRoundStart (NewMeta ti ''WorldRoundStart''))"

definition NewWorldRoundRestart :: MessageFunc where
  "NewWorldRoundRestart ti r =
     (if length r \<le> 1 then None
      else Some (WorldRoundRestart (NewMeta ti ''WorldRoundRestart'') (toInt (r ! 1))))"

definition NewWorldRoundEnd :: MessageFunc where
  "NewWorldRoundEnd ti r = Some (WorldRoundEnd (NewMeta ti ''WorldRoundEnd''))"

definition NewWorldGameCommencing :: MessageFunc where
  "NewWorldGameCommencing ti r =
     Some (WorldGameCommencing (NewMeta ti ''WorldGameCommencing''))"

definition NewTeamScored :: MessageFunc where
  "NewTeamScored ti r =
     (if length r \<le> 3 then None
      else Some (TeamScored (NewMeta ti ''TeamScored'') (r ! 1) (toInt (r ! 2)) (toInt (r ! 3))))"

definition NewTeamNotice :: MessageFunc where
  "NewTeamNotice ti r =
     (if length r \<le> 4 then None
      else Some (TeamNotice (NewMeta ti ''TeamNotice'') (r ! 1) (r ! 2)
                   (toInt (r ! 3)) (toInt (r ! 4))))"

definition NewPlayerConnected :: MessageFunc where
  "NewPlayerConnected ti r =
     (if length r \<le> 4 then None
      else Some (PlayerConnected (NewMeta ti ''PlayerConnected'')
                   \<lparr>Name = r ! 1, ID = toInt (r ! 2), SteamID = r ! 3, Side = ''''\<rparr>
                   (r ! 4)))"

definition NewPlayerDisconnected :: MessageFunc where
  "NewPlayerDisconnected ti r =
     (if length r \<le> 5 then None
      else Some (PlayerDisconnected (NewMeta ti ''PlayerDisconnected'')
                   \<lparr>Name = r ! 1, ID = toInt (r ! 2), SteamID = r ! 3, Side = r ! 4\<rparr>
                   (r ! 5)))"

definition NewPlayerEntered :: MessageFunc where
  "NewPlayerEntered ti r =
     (if length r \<le> 3 then None
      else Some (PlayerEntered (NewMeta ti ''PlayerEntered'')
                   \<lparr>Name = r ! 1, ID = toInt (r ! 2), SteamID = r ! 3, Side = ''''\<rparr>))"

definition NewPlayerBanned :: MessageFunc where
  "NewPlayerBanned ti r =
     (if length r \<le> 5 then None
      else Some (PlayerBanned (NewMeta ti ''PlayerBanned'')
                   \<lparr>Name = r ! 1, ID = toInt (r ! 2), SteamID = r ! 3, Side = ''''\<rparr>
                   (r ! 4) (r ! 5)))"

definition NewPlayerSwitched :: MessageFunc where
  "NewPlayerSwitched ti r =
     (if length r \<le> 5 then None
      else Some (PlayerSwitched (NewMeta ti ''PlayerSwitched'')
                   \<lparr>Name = r ! 1, ID = toInt (r ! 2), SteamID = r ! 3, Side = ''''\<rparr>
                   (r ! 4) (r ! 5)))"

text \<open>The arguments are \<^verbatim>\<open>Player\<close>, \<^verbatim>\<open>Text\<close> and \<^verbatim>\<open>Team\<close>.\<close>

definition NewPlayerSay :: MessageFunc where
  "NewPlayerSay ti r =
     (if length r \<le> 6 then None
      else Some (PlayerSay (NewMeta ti ''PlayerSay'')
                   \<lparr>Name = r ! 1, ID = toInt (r ! 2), SteamID = r ! 3, Side = r ! 4\<rparr>
                   (r ! 6) (r ! 5 = ''_team'')))"

definition NewPlayerPurchase :: MessageFunc where
  "NewPlayerPurchase ti r =
     (if length r \<le> 5 then None
      else Some (PlayerPurchase (NewMeta ti ''PlayerPurchase'')
                   \<lparr>Name = r ! 1, ID = toInt (r ! 2), SteamID = r ! 3, Side = r ! 4\<rparr>
                   (r ! 5)))"

text \<open>
  The arguments are \<^verbatim>\<open>Attacker\<close>, \<^verbatim>\<open>AttackerPosition\<close>, \<^verbatim>\<open>Victim\<close>, \<^verbatim>\<open>VictimPosition\<close>,
  \<^verbatim>\<open>Weapon\<close>, \<^verbatim>\<open>Headshot\<close> and \<^verbatim>\<open>Penetrated\<close>.
\<close>

definition NewPlayerKill :: MessageFunc where
  "NewPlayerKill ti r =
     (if length r \<le> 17 then None
      else Some (PlayerKill (NewMeta ti ''PlayerKill'')
                   \<lparr>Name = r ! 1, ID = toInt (r ! 2), SteamID = r ! 3, Side = r ! 4\<rparr>
                   \<lparr>X = toInt (r ! 5), Y = toInt (r ! 6), Z = toInt (r ! 7)\<rparr>
                   \<lparr>Name = r ! 8, ID = toInt (r ! 9), SteamID = r ! 10, Side = r ! 11\<rparr>
                   \<lparr>X = toInt (r ! 12), Y = toInt (r ! 13), Z = toInt (r ! 14)\<rparr>
                   (r ! 15)
                   (Contains (r ! 17) ''headshot'')
                   (Contains (r ! 17) ''penetrated'')))"

definition NewPlayerKillAssist :: MessageFunc where
  "NewPlayerKillAssist ti r =
     (if length r \<le> 8 then None
      else Some (PlayerKillAssist (NewMeta ti ''PlayerKillAssist'')
                   \<lparr>Name = r ! 1, ID = toInt (r ! 2), SteamID = r ! 3, Side = r ! 4\<rparr>
                   \<lparr>Name = r ! 5, ID = toInt (r ! 6), SteamID = r ! 7, Side = r ! 8\<rparr>))"

text \<open>
  The arguments are \<^verbatim>\<open>Attacker\<close>, \<^verbatim>\<open>AttackerPosition\<close>, \<^verbatim>\<open>Victim\<close>, \<^verbatim>\<open>VictimPosition\<close>,
  \<^verbatim>\<open>Weapon\<close>, \<^verbatim>\<open>Damage\<close>, \<^verbatim>\<open>DamageArmor\<close>, \<^verbatim>\<open>Health\<close>, \<^verbatim>\<open>Armor\<close> and \<^verbatim>\<open>Hitgroup\<close>.
\<close>

definition NewPlayerAttack :: MessageFunc where
  "NewPlayerAttack ti r =
     (if length r \<le> 20 then None
      else Some (PlayerAttack (NewMeta ti ''PlayerAttack'')
                   \<lparr>Name = r ! 1, ID = toInt (r ! 2), SteamID = r ! 3, Side = r ! 4\<rparr>
                   \<lparr>X = toInt (r ! 5), Y = toInt (r ! 6), Z = toInt (r ! 7)\<rparr>
                   \<lparr>Name = r ! 8, ID = toInt (r ! 9), SteamID = r ! 10, Side = r ! 11\<rparr>
                   \<lparr>X = toInt (r ! 12), Y = toInt (r ! 13), Z = toInt (r ! 14)\<rparr>
                   (r ! 15)
                   (toInt (r ! 16)) (toInt (r ! 17)) (toInt (r ! 18)) (toInt (r ! 19))
                   (r ! 20)))"

definition NewPlayerKilledBomb :: MessageFunc where
  "NewPlayerKilledBomb ti r =
     (if length r \<le> 7 then None
      else Some (PlayerKilledBomb (NewMeta ti ''PlayerKilledBomb'')
                   \<lparr>Name = r ! 1, ID = toInt (r ! 2), SteamID = r ! 3, Side = r ! 4\<rparr>
                   \<lparr>X = toInt (r ! 5), Y = toInt (r ! 6), Z = toInt (r ! 7)\<rparr>))"

definition NewPlayerKilledSuicide :: MessageFunc where
  "NewPlayerKilledSuicide ti r =
     (if length r \<le> 8 then None
      else Some (PlayerKilledSuicide (NewMeta ti ''PlayerKilledSuicide'')
                   \<lparr>Name = r ! 1, ID = toInt (r ! 2), SteamID = r ! 3, Side = r ! 4\<rparr>
                   \<lparr>X = toInt (r ! 5), Y = toInt (r ! 6), Z = toInt (r ! 7)\<rparr>
                   (r ! 8)))"

definition NewPlayerPickedUp :: MessageFunc where
  "NewPlayerPickedUp ti r =
     (if length r \<le> 5 then None
      else Some (PlayerPickedUp (NewMeta ti ''PlayerPickedUp'')
                   \<lparr>Name = r ! 1, ID = toInt (r ! 2), SteamID = r ! 3, Side = r ! 4\<rparr>
                   (r ! 5)))"

definition NewPlayerDropped :: MessageFunc where
  "NewPlayerDropped ti r =
     (if length r \<le> 5 then None
      else Some (PlayerDropped (NewMeta ti ''PlayerDropped'')
                   \<lparr>Name = r ! 1, ID = toInt (r ! 2), SteamID = r ! 3, Side = r ! 4\<rparr>
                   (r ! 5)))"

definition NewPlayerMoneyChange :: MessageFunc where
  "NewPlayerMoneyChange ti r =
     (if length r \<le> 9 then None
      else Some (PlayerMoneyChange (NewMeta ti ''PlayerMoneyChange'')
                   \<lparr>Name = r ! 1, ID = toInt (r ! 2), SteamID = r ! 3, Side = r ! 4\<rparr>
                   \<lparr>A = toInt (r ! 5), B = toInt (r ! 6), Result = toInt (r ! 7)\<rparr>
                   (r ! 9)))"

definition NewPlayerBombGot :: MessageFunc where
  "NewPlayerBombGot ti r =
     (if length r \<le> 4 then None
      else Some (PlayerBombGot (NewMeta ti ''PlayerBombGot'')
                   \<lparr>Name = r ! 1, ID = toInt (r ! 2), SteamID = r ! 3, Side = r ! 4\<rparr>))"

definition NewPlayerBombPlanted :: MessageFunc where
  "NewPlayerBombPlanted ti r =
     (if length r \<le> 4 then None
      else Some (PlayerBombPlanted (NewMeta ti ''PlayerBombPlanted'')
                   \<lparr>Name = r ! 1, ID = toInt (r ! 2), SteamID = r ! 3, Side = r ! 4\<rparr>))"

definition NewPlayerBombDropped :: MessageFunc where
  "NewPlayerBombDropped ti r =
     (if length r \<le> 4 then None
      else Some (PlayerBombDropped (NewMeta ti ''PlayerBombDropped'')
                   \<lparr>Name = r ! 1, ID = toInt (r ! 2), SteamID = r ! 3, Side = r ! 4\<rparr>))"

text \<open>The arguments are \<^verbatim>\<open>Player\<close> and \<^verbatim>\<open>Kit\<close>.\<close>

definition NewPlayerBombBeginDefuse :: MessageFunc where
  "NewPlayerBombBeginDefuse ti r =
     (if length r \<le> 5 then None
      else Some (PlayerBombBeginDefuse (NewMeta ti ''PlayerBombBeginDefuse'')
                   \<lparr>Name = r ! 1, ID = toInt (r ! 2), SteamID = r ! 3, Side = r ! 4\<rparr>
                   (\<not> (r ! 5 = ''out''))))"

definition NewPlayerBombDefused :: MessageFunc where
  "NewPlayerBombDefused ti r =
     (if length r \<le> 4 then None
      else Some (PlayerBombDefused (NewMeta ti ''PlayerBombDefused'')
                   \<lparr>Name = r ! 1, ID = toInt (r ! 2), SteamID = r ! 3, Side = r ! 4\<rparr>))"

text \<open>The arguments are \<^verbatim>\<open>Player\<close>, \<^verbatim>\<open>Position\<close>, \<^verbatim>\<open>Entindex\<close> and \<^verbatim>\<open>Grenade\<close>.\<close>

definition NewPlayerThrew :: MessageFunc where
  "NewPlayerThrew ti r =
     (if length r \<le> 10 then None
      else Some (PlayerThrew (NewMeta ti ''PlayerThrew'')
                   \<lparr>Name = r ! 1, ID = toInt (r ! 2), SteamID = r ! 3, Side = r ! 4\<rparr>
                   \<lparr>X = toInt (r ! 6), Y = toInt (r ! 7), Z = toInt (r ! 8)\<rparr>
                   (toInt (r ! 10))
                   (r ! 5)))"

text \<open>The arguments are \<^verbatim>\<open>Attacker\<close>, \<^verbatim>\<open>Victim\<close>, \<^verbatim>\<open>For\<close> and \<^verbatim>\<open>Entindex\<close>.\<close>

definition NewPlayerBlinded :: "stdlib \<Rightarrow> MessageFunc" where
  "NewPlayerBlinded lib ti r =
     (if length r \<le> 10 then None
      else Some (PlayerBlinded (NewMeta ti ''PlayerBlinded'')
                   \<lparr>Name = r ! 6, ID = toInt (r ! 7), SteamID = r ! 8, Side = r ! 9\<rparr>
                   \<lparr>Name = r ! 1, ID = toInt (r ! 2), SteamID = r ! 3, Side = r ! 4\<rparr>
                   (toFloat32 lib (r ! 5))
                   (toInt (r ! 10))))"

definition NewProjectileSpawned :: "stdlib \<Rightarrow> MessageFunc" where
  "NewProjectileSpawned lib ti r =
     (if length r \<le> 6 then None
      else Some (ProjectileSpawned (NewMeta ti ''ProjectileSpawned'')
                   \<lparr>X = toFloat32 lib (r ! 1), Y = toFloat32 lib (r ! 2),
                    Z = toFloat32 lib (r ! 3)\<rparr>
                   \<lparr>X = toFloat32 lib (r ! 4), Y = toFloat32 lib (r ! 5),
                    Z = toFloat32 lib (r ! 6)\<rparr>))"

text \<open>
  The arguments are \<^verbatim>\<open>Mode\<close>, \<^verbatim>\<open>MapGroup\<close>, \<^verbatim>\<open>Map\<close>, \<^verbatim>\<open>ScoreCT\<close>, \<^verbatim>\<open>ScoreT\<close> and
  \<^verbatim>\<open>Duration\<close>.
\<close>

definition NewGameOver :: MessageFunc where
  "NewGameOver ti r =
     (if length r \<le> 6 then None
      else Some (GameOver (NewMeta ti ''GameOver'') (r ! 1) (r ! 2) (r ! 3)
                   (toInt (r ! 4)) (toInt (r ! 5)) (toInt (r ! 6))))"

definition NewServerCvar :: MessageFunc where
  "NewServerCvar ti r =
     (if length r \<le> 2 then None
      else Some (ServerCvar (NewMeta ti ''ServerCvar'') (r ! 1) (r ! 2)))"

text \<open>
  \<^verbatim>\<open>NewGet5Event\<close> reads \<^verbatim>\<open>r[2]\<close> and \<^verbatim>\<open>r[4]\<close>, then decodes \<^verbatim>\<open>r[3]\<close>; when that fails it logs
  the error and returns \<^verbatim>\<open>NewUnknown(ti, r)\<close>. The arguments of \<open>Get5Event\<close> are \<^verbatim>\<open>Matchid\<close>,
  \<^verbatim>\<open>Params\<close> and \<^verbatim>\<open>Event\<close>. The line written to the standard logger is not part of the
  result and is left out.
\<close>

definition NewGet5Event :: "stdlib \<Rightarrow> MessageFunc" where
  "NewGet5Event lib ti r =
     (if length r \<le> 4 then None
      else case Unmarshal lib (r ! 3) of
             Inl err \<Rightarrow> NewUnknown ti r
           | Inr params \<Rightarrow> Some (Get5Event (NewMeta ti ''Get5Event'') (r ! 2) params (r ! 4)))"

text \<open>
  \<^verbatim>\<open>NewRconEvent\<close> converts \<^verbatim>\<open>r[2]\<close> first and returns \<^verbatim>\<open>NewUnknown(ti, r)\<close> when that fails;
  \<^verbatim>\<open>uint(p)\<close> is the 64-bit word of \<^verbatim>\<open>p\<close>. The arguments of \<open>Rcon\<close> are \<^verbatim>\<open>IP\<close>, \<^verbatim>\<open>Port\<close> and
  \<^verbatim>\<open>Command\<close>.
\<close>

definition NewRconEvent :: MessageFunc where
  "NewRconEvent ti r =
     (if length r \<le> 2 then None
      else case Atoi (r ! 2) of
             Inl err \<Rightarrow> NewUnknown ti r
           | Inr p \<Rightarrow>
               if length r \<le> 3 then None
               else Some (Rcon (NewMeta ti ''Rcon'') (r ! 1) (word_of_int p) (r ! 3)))"

text \<open>
  The arguments are \<^verbatim>\<open>Attacker\<close>, \<^verbatim>\<open>AttackerPosition\<close>, \<^verbatim>\<open>Victim\<close>, \<^verbatim>\<open>VictimID\<close>,
  \<^verbatim>\<open>VictimPosition\<close> and \<^verbatim>\<open>Weapon\<close>.
\<close>

definition NewPlayerKillOther :: MessageFunc where
  "NewPlayerKillOther ti r =
     (if length r \<le> 13 then None
      else Some (PlayerKillOther (NewMeta ti ''PlayerKillOther'')
                   \<lparr>Name = r ! 1, ID = toInt (r ! 2), SteamID = r ! 3, Side = r ! 4\<rparr>
                   \<lparr>X = toInt (r ! 5), Y = toInt (r ! 6), Z = toInt (r ! 7)\<rparr>
                   (r ! 8) (r ! 9)
                   \<lparr>X = toInt (r ! 10), Y = toInt (r ! 11), Z = toInt (r ! 12)\<rparr>
                   (r ! 13)))"

section \<open>The table and the parser\<close>

text \<open>The entries of \<^verbatim>\<open>DefaultPatterns\<close>, in the order of the map literal.\<close>

definition DefaultPatterns :: "stdlib \<Rightarrow> (regex \<times> MessageFunc) list" where
  "DefaultPatterns lib =
    [(ServerMessagePattern, NewServerMessage),
     (FreezTimeStartPattern, NewFreezTimeStart),
     (WorldMatchStartPattern, NewWorldMatchStart),
     (WorldRoundStartPattern, NewWorldRoundStart),
     (WorldRoundRestartPattern, NewWorldRoundRestart),
     (WorldRoundEndPattern, NewWorldRoundEnd),
     (WorldGameCommencingPattern, NewWorldGameCommencing),
     (TeamScoredPattern, NewTeamScored),
     (TeamNoticePattern, NewTeamNotice),
     (PlayerConnectedPattern, NewPlayerConnected),
     (PlayerDisconnectedPattern, NewPlayerDisconnected),
     (PlayerEnteredPattern, NewPlayerEntered),
     (PlayerBannedPattern, NewPlayerBanned),
     (PlayerSwitchedPattern, NewPlayerSwitched),
     (PlayerSayPattern, NewPlayerSay),
     (PlayerPurchasePattern, NewPlayerPurchase),
     (PlayerKillPattern, NewPlayerKill),
     (PlayerKillAssistPattern, NewPlayerKillAssist),
     (PlayerAttackPattern, NewPlayerAttack),
     (PlayerKilledBombPattern, NewPlayerKilledBomb),
     (PlayerKilledSuicidePattern, NewPlayerKilledSuicide),
     (PlayerPickedUpPattern, NewPlayerPickedUp),
     (PlayerDroppedPattern, NewPlayerDropped),
     (PlayerMoneyChangePattern, NewPlayerMoneyChange),
     (PlayerBombGotPattern, NewPlayerBombGot),
     (PlayerBombPlantedPattern, NewPlayerBombPlanted),
     (PlayerBombDroppedPattern, NewPlayerBombDropped),
     (PlayerBombBeginDefusePattern, NewPlayerBombBeginDefuse),
     (PlayerBombDefusedPattern, NewPlayerBombDefused),
     (PlayerThrewPattern, NewPlayerThrew),
     (PlayerBlindedPattern, NewPlayerBlinded lib),
     (ProjectileSpawnedPattern, NewProjectileSpawned lib),
     (GameOverPattern, NewGameOver),
     (ServerCvarPattern, NewServerCvar),
     (Get5EventPattern, NewGet5Event lib),
     (RconEventPattern, NewRconEvent),
     (PlayerKillOtherPattern, NewPlayerKillOther)]"

text \<open>
  The loop of \<^verbatim>\<open>ParseWithPatterns\<close> over the entries in the order the \<^verbatim>\<open>range\<close> statement
  yields them, and what follows the loop: the first entry whose pattern matches
  \<^verbatim>\<open>result[2]\<close> decides, and with no such entry the message is \<^verbatim>\<open>NewUnknown(ti, result[1:])\<close>.
\<close>

fun range_patterns :: "Time \<Rightarrow> string list \<Rightarrow> (regex \<times> MessageFunc) list \<Rightarrow> Message option" where
  "range_patterns ti result [] = NewUnknown ti (tl result)"
| "range_patterns ti result ((re, fn) # patterns) =
     (case FindStringSubmatch re (result ! 2) of
        Some r \<Rightarrow> fn ti r
      | None \<Rightarrow> range_patterns ti result patterns)"

text \<open>
  \<^verbatim>\<open>ParseWithPatterns\<close>, with the map given as the list of its entries in iteration order.
  The result \<open>Some (Inr msg)\<close> is the return of \<^verbatim>\<open>(msg, nil)\<close>, \<open>Some (Inl err)\<close> the return of
  \<^verbatim>\<open>(nil, err)\<close> and \<open>None\<close> a panic.
\<close>

definition ParseWithPatterns ::
  "string \<Rightarrow> (regex \<times> MessageFunc) list \<Rightarrow> (error + Message) option" where
  "ParseWithPatterns line patterns =
     (case FindStringSubmatch LogLinePattern line of
        None \<Rightarrow> Some (Inl ErrorNoMatch)
      | Some result \<Rightarrow>
          (case time_Parse (result ! 1) of
             Inl err \<Rightarrow> Some (Inl err)
           | Inr ti \<Rightarrow> map_option Inr (range_patterns ti result patterns)))"

text \<open>
  Go leaves the iteration order of a map unspecified and varies it from one \<^verbatim>\<open>range\<close>
  statement to the next; each entry is visited once. An iteration order of a map with
  \<open>n\<close> entries is a permutation of the indices below \<open>n\<close>.
\<close>

definition iteration_order :: "nat \<Rightarrow> nat list \<Rightarrow> bool" where
  "iteration_order n order = (sort order = [0..<n])"

text \<open>\<^verbatim>\<open>Parse\<close>, for the iteration order that its run of the loop takes.\<close>

definition Parse :: "stdlib \<Rightarrow> nat list \<Rightarrow> string \<Rightarrow> (error + Message) option" where
  "Parse lib order line =
     ParseWithPatterns line (map (\<lambda>i. DefaultPatterns lib ! i) order)"

section \<open>Vocabulary of the statements\<close>

text \<open>
  \<open>prefix_at line i\<close>: the 25 bytes of \<open>line\<close> from position \<open>i\<close> on are a timestamp prefix,
  \<^verbatim>\<open>L MM/DD/YYYY - HH:MM:SS: \<close> with a decimal digit for every letter.
\<close>

definition prefix_at :: "string \<Rightarrow> nat \<Rightarrow> bool" where
  "prefix_at line i = fits ''L dd/dd/dddd - dd:dd:dd: '' (take 25 (drop i line))"

text \<open>
  An instance of the library parameters for the evaluation of concrete lines. It decodes
  the empty JSON object to the zero value and converts the numeral 0, and it rejects every
  other string. The concrete lines below hand it nothing but strings that
  \<^verbatim>\<open>json.Unmarshal\<close> and \<^verbatim>\<open>strconv.ParseFloat\<close> treat alike.
\<close>

definition zero_params :: Get5EventParams where
  "zero_params =
     \<lparr>MapNumber = 0, MapName = '''', Team1Name = '''', Team1Score = 0, Team1SeriesScore = 0,
      Team2Name = '''', Team2Score = 0, Team2SeriesScore = 0, Headshot = 0, Weapon = '''',
      Reason = 0, Message = '''', File = '''', Site = 0, Stage = '''', Victim = '''',
      Attacker = ''''\<rparr>"

definition minimal_lib :: stdlib where
  "minimal_lib =
     \<lparr>Unmarshal = (\<lambda>s. if s = ''{}'' then Inr zero_params else Inl JSONError),
      ParseFloat = (\<lambda>s. if s = ''0'' then Inr 0 else Inl ErrSyntax)\<rparr>"

section \<open>The search is sound\<close>

lemma star_sound:
  "star c s k = Some res \<Longrightarrow> \<exists>u v. s = u @ v \<and> (\<forall>x \<in> set u. accepts c x) \<and> k v = Some res"
proof (induction s)
  case Nil
  then show ?case by simp
next
  case (Cons x xs)
  show ?case
  proof (cases "accepts c x \<and> star c xs k \<noteq> None")
    case True
    with Cons.prems have "star c xs k = Some res" by auto
    from Cons.IH[OF this] obtain u v where "xs = u @ v" "\<forall>x \<in> set u. accepts c x" "k v = Some res"
      by blast
    with True have "x # xs = (x # u) @ v \<and> (\<forall>y \<in> set (x # u). accepts c y) \<and> k v = Some res"
      by simp
    then show ?thesis by blast
  next
    case False
    with Cons.prems have "k (x # xs) = Some res" by (auto split: if_splits option.splits)
    then have "x # xs = [] @ (x # xs) \<and> (\<forall>y \<in> set []. accepts c y) \<and> k (x # xs) = Some res"
      by simp
    then show ?thesis by blast
  qed
qed

lemma m_sound:
  "m r s cs k = Some res \<Longrightarrow> \<exists>u v cs'. s = u @ v \<and> sem r cs u cs' \<and> k v cs' = Some res"
proof (induction r arbitrary: s cs k)
  case Eps
  then show ?case by simp
next
  case (Atom c)
  then obtain x xs where "s = x # xs" "accepts c x" "k xs cs = Some res"
    by (cases s) (auto split: if_splits)
  then have "s = [x] @ xs \<and> sem (Atom c) cs [x] cs \<and> k xs cs = Some res" by simp
  then show ?case by blast
next
  case (Cat a b)
  from Cat.prems have "m a s cs (\<lambda>s' cs'. m b s' cs' k) = Some res" by simp
  from Cat.IH(1)[OF this] obtain u1 v1 cs1
    where a: "s = u1 @ v1" "sem a cs u1 cs1" "m b v1 cs1 k = Some res" by blast
  from Cat.IH(2)[OF a(3)] obtain u2 v cs'
    where b: "v1 = u2 @ v" "sem b cs1 u2 cs'" "k v cs' = Some res" by blast
  from a b have "s = (u1 @ u2) @ v \<and> sem (Cat a b) cs (u1 @ u2) cs' \<and> k v cs' = Some res"
    by auto
  then show ?case by blast
next
  case (Alt a b)
  then show ?case by (fastforce split: option.splits)
next
  case (Star c)
  then have "star c s (\<lambda>s'. k s' cs) = Some res" by simp
  from star_sound[OF this] show ?case by auto
next
  case (Opt a)
  show ?case
  proof (cases "m a s cs k")
    case None
    with Opt.prems have "k s cs = Some res" by simp
    then have "s = [] @ s \<and> sem (Opt a) cs [] cs \<and> k s cs = Some res" by simp
    then show ?thesis by blast
  next
    case (Some r)
    with Opt.prems have "m a s cs k = Some res" by simp
    from Opt.IH[OF this] show ?thesis by fastforce
  qed
next
  case (Group n a)
  from Group.prems
  have "m a s cs (\<lambda>s' cs'. k s' (cs'[n := take (length s - length s') s])) = Some res" by simp
  from Group.IH[OF this] obtain u v cs1
    where g: "s = u @ v" "sem a cs u cs1" "k v (cs1[n := take (length s - length v) s]) = Some res"
    by blast
  then have "s = u @ v \<and> sem (Group n a) cs u (cs1[n := u]) \<and> k v (cs1[n := u]) = Some res"
    by auto
  then show ?case by blast
qed

lemma sem_length: "sem r cs u cs' \<Longrightarrow> length cs' = length cs"
  by (induction r arbitrary: cs u cs') auto

lemma match_here_sound:
  assumes "match_here re s = Some r"
  shows "\<exists>u v cs'. s = u @ v \<and> sem re (replicate (Suc (ngroups re)) []) u cs' \<and> r = cs'[0 := u]"
proof -
  from assms m_sound[of re s "replicate (Suc (ngroups re)) []"
      "\<lambda>s' cs. Some (cs[0 := take (length s - length s') s])" r]
  obtain u v cs' where "s = u @ v" "sem re (replicate (Suc (ngroups re)) []) u cs'"
    "Some (cs'[0 := take (length s - length v) s]) = Some r"
    unfolding match_here_def by blast
  then have "s = u @ v \<and> sem re (replicate (Suc (ngroups re)) []) u cs' \<and> r = cs'[0 := u]"
    by auto
  then show ?thesis by blast
qed

lemma find_here:
  "FindStringSubmatch re s = Some r \<Longrightarrow> \<exists>p t. s = p @ t \<and> match_here re t = Some r"
proof (induction s)
  case Nil
  then show ?case by simp
next
  case (Cons x xs)
  show ?case
  proof (cases "match_here re (x # xs)")
    case None
    with Cons.prems have "FindStringSubmatch re xs = Some r" by simp
    from Cons.IH[OF this] obtain p t where "xs = p @ t" "match_here re t = Some r" by blast
    then have "x # xs = (x # p) @ t \<and> match_here re t = Some r" by simp
    then show ?thesis by blast
  next
    case (Some a)
    with Cons.prems have "x # xs = [] @ (x # xs) \<and> match_here re (x # xs) = Some r" by simp
    then show ?thesis by blast
  qed
qed

lemma find_sound:
  assumes "FindStringSubmatch re s = Some r"
  shows "\<exists>p u v cs'. s = p @ u @ v \<and> sem re (replicate (Suc (ngroups re)) []) u cs'
           \<and> r = cs'[0 := u]"
proof -
  from find_here[OF assms] obtain p t where pt: "s = p @ t" "match_here re t = Some r" by blast
  from match_here_sound[OF pt(2)] pt(1) show ?thesis by blast
qed

lemma find_length:
  assumes "FindStringSubmatch re s = Some r"
  shows "length r = Suc (ngroups re)"
proof -
  from find_sound[OF assms] obtain p u v cs'
    where "sem re (replicate (Suc (ngroups re)) []) u cs'" "r = cs'[0 := u]" by blast
  then show ?thesis using sem_length by fastforce
qed

lemma ngroups_Str [simp]: "ngroups (Str s) = 0"
  unfolding Str_def by (induction s) auto

lemma ngroups_Plus [simp]: "ngroups (Plus c) = 0"
  by (simp add: Plus_def)

lemma ngroups_Seq [simp]: "ngroups (Seq rs) = sum_list (map ngroups rs)"
  unfolding Seq_def by (induction rs) auto

lemma ngroups_Alts [simp]: "ngroups (Alts rs) = sum_list (map ngroups rs)"
  by (induction rs rule: Alts.induct) auto


section \<open>The timestamp prefix\<close>

lemma star_total:
  assumes "\<And>s'. k s' \<noteq> None"
  shows "star c s k = k (dropWhile (accepts c) s)"
proof (induction s)
  case Nil
  then show ?case by simp
next
  case (Cons x xs)
  from assms obtain r where "k (dropWhile (accepts c) xs) = Some r" by fastforce
  with Cons show ?case by simp
qed

lemma star_Some: "star c s (\<lambda>s'. Some (f s')) = Some (f (dropWhile (accepts c) s))"
  by (rule star_total) simp

lemma take_dropWhile:
  "take (length s - length (dropWhile P s)) s = takeWhile P s"
proof -
  have "length s - length (dropWhile P s) = length (takeWhile P s)"
    by (metis add_diff_cancel_right' length_append takeWhile_dropWhile_id)
  then show ?thesis by (metis takeWhile_eq_take)
qed

lemma fits_Nil [simp]: "fits [] s = (s = [])"
  by (simp add: fits_def)

lemma fits_Cons:
  "fits (t # ts) s =
     (case s of [] \<Rightarrow> False
      | c # cs \<Rightarrow> (if t = CHR ''d'' then is_digit c else c = t) \<and> fits ts cs)"
  by (cases s) (simp_all add: fits_def)

lemma fits_length: "fits tmpl s \<Longrightarrow> length s = length tmpl"
  by (simp add: fits_def list_all2_lengthD)

lemma m_tmpl:
  "m (foldr (\<lambda>t r. Cat (Atom (if t = CHR ''d'' then Digit else Lit t)) r) tmpl r0) s cs k =
     (if fits tmpl (take (length tmpl) s) then m r0 (drop (length tmpl) s) cs k else None)"
proof (induction tmpl arbitrary: s)
  case Nil
  then show ?case by simp
next
  case (Cons t ts)
  show ?case
  proof (cases s)
    case Nil
    then show ?thesis by (simp add: fits_Cons)
  next
    case (Cons c cs')
    with Cons.IH[of cs'] show ?thesis by (auto simp add: fits_Cons)
  qed
qed

lemma fits_append:
  "fits (t1 @ t2) s = (fits t1 (take (length t1) s) \<and> fits t2 (drop (length t1) s))"
proof (induction t1 arbitrary: s)
  case Nil
  then show ?case by simp
next
  case (Cons t ts)
  then show ?case by (cases s) (auto simp add: fits_Cons)
qed

lemma m_Str_L:
  "m (Str ''L '') s cs k = (if fits ''L '' (take 2 s) then k (drop 2 s) cs else None)"
proof -
  have e: "m (Str ''L '') s cs k =
      m (foldr (\<lambda>t r. Cat (Atom (if t = CHR ''d'' then Digit else Lit t)) r) ''L '' Eps) s cs k"
    by (simp add: Str_def)
  have l: "length ''L '' = 2" by simp
  show ?thesis unfolding e m_tmpl l by simp
qed

lemma m_Str_colon:
  "m (Str '': '') s cs k = (if fits '': '' (take 2 s) then k (drop 2 s) cs else None)"
proof -
  have e: "m (Str '': '') s cs k =
      m (foldr (\<lambda>t r. Cat (Atom (if t = CHR ''d'' then Digit else Lit t)) r) '': '' Eps) s cs k"
    by (simp add: Str_def)
  have l: "length '': '' = 2" by simp
  show ?thesis unfolding e m_tmpl l by simp
qed

lemma m_date:
  "m (Seq [Atom Digit, Atom Digit, Str ''/'', Atom Digit, Atom Digit, Str ''/'',
           Atom Digit, Atom Digit, Atom Digit, Atom Digit, Str '' - '',
           Atom Digit, Atom Digit, Str '':'', Atom Digit, Atom Digit, Str '':'',
           Atom Digit, Atom Digit]) s cs k =
     (if fits ''dd/dd/dddd - dd:dd:dd'' (take 21 s) then k (drop 21 s) cs else None)"
proof -
  have e: "m (Seq [Atom Digit, Atom Digit, Str ''/'', Atom Digit, Atom Digit, Str ''/'',
           Atom Digit, Atom Digit, Atom Digit, Atom Digit, Str '' - '',
           Atom Digit, Atom Digit, Str '':'', Atom Digit, Atom Digit, Str '':'',
           Atom Digit, Atom Digit]) s cs k =
      m (foldr (\<lambda>t r. Cat (Atom (if t = CHR ''d'' then Digit else Lit t)) r)
           ''dd/dd/dddd - dd:dd:dd'' Eps) s cs k"
    by (simp add: Seq_def Str_def)
  have l: "length ''dd/dd/dddd - dd:dd:dd'' = 21" by simp
  show ?thesis unfolding e m_tmpl l by simp
qed

lemma m_Seq4:
  "m (Seq [a, b, c, d]) s cs k =
     m a s cs (\<lambda>s1 c1. m b s1 c1 (\<lambda>s2 c2. m c s2 c2 (\<lambda>s3 c3. m d s3 c3 k)))"
  by (simp add: Seq_def)

lemma ngroups_LogLine: "ngroups LogLinePattern = 2"
  by (simp add: LogLinePattern_def)

lemma fits_prefix_split:
  "fits ''L dd/dd/dddd - dd:dd:dd: '' (take 25 s) =
     (fits ''L '' (take 2 s) \<and> fits ''dd/dd/dddd - dd:dd:dd'' (take 21 (drop 2 s))
      \<and> fits '': '' (take 2 (drop 23 s)))"
proof -
  have a: "''L dd/dd/dddd - dd:dd:dd: '' = ''L '' @ ''dd/dd/dddd - dd:dd:dd'' @ '': ''" by simp
  have l1: "length ''L '' = 2" by simp
  have l2: "length ''dd/dd/dddd - dd:dd:dd'' = 21" by simp
  have "fits ''L dd/dd/dddd - dd:dd:dd: '' (take 25 s) =
     (fits ''L '' (take 2 (take 25 s)) \<and> fits ''dd/dd/dddd - dd:dd:dd'' (take 21 (drop 2 (take 25 s)))
      \<and> fits '': '' (drop 21 (drop 2 (take 25 s))))"
    unfolding a fits_append l1 l2 by (rule refl)
  also have "take 2 (take 25 s) = take 2 s" by simp
  also have "take 21 (drop 2 (take 25 s)) = take 21 (drop 2 s)" by (simp add: drop_take)
  also have "drop 21 (drop 2 (take 25 s)) = take 2 (drop 23 s)" by (simp add: drop_take)
  finally show ?thesis .
qed

lemma m_LogLine:
  "m LogLinePattern s cs k =
     (if fits ''L dd/dd/dddd - dd:dd:dd: '' (take 25 s)
      then star Any (drop 25 s)
             (\<lambda>s'. k s' (cs[1 := take 21 (drop 2 s),
                             2 := take (length (drop 25 s) - length s') (drop 25 s)]))
      else None)"
proof -
  have unf: "m LogLinePattern s cs k =
      m (Str ''L '') s cs (\<lambda>s1 c1.
        m (Seq [Atom Digit, Atom Digit, Str ''/'', Atom Digit, Atom Digit, Str ''/'',
           Atom Digit, Atom Digit, Atom Digit, Atom Digit, Str '' - '',
           Atom Digit, Atom Digit, Str '':'', Atom Digit, Atom Digit, Str '':'',
           Atom Digit, Atom Digit]) s1 c1 (\<lambda>s2 c2.
          m (Str '': '') s2 (c2[1 := take (length s1 - length s2) s1]) (\<lambda>s3 c3.
            star Any s3 (\<lambda>s'. k s' (c3[2 := take (length s3 - length s') s3])))))"
    unfolding LogLinePattern_def m_Seq4 by simp
  show ?thesis
  proof (cases "fits ''L dd/dd/dddd - dd:dd:dd: '' (take 25 s)")
    case False
    then show ?thesis
      unfolding unf m_Str_L m_date m_Str_colon fits_prefix_split by (simp del: star.simps)
  next
    case True
    then have f: "fits ''L '' (take 2 s)" "fits ''dd/dd/dddd - dd:dd:dd'' (take 21 (drop 2 s))"
      "fits '': '' (take 2 (drop 23 s))"
      unfolding fits_prefix_split by simp_all
    from fits_length[OF True] have len: "25 \<le> length s" by simp
    then have l21: "length s - 2 - (length s - 23) = 21" by simp
    from True f l21 show ?thesis
      unfolding unf m_Str_L m_date m_Str_colon by (simp del: star.simps)
  qed
qed

lemma take_minus_suffix: "take (length (a @ c) - length c) (a @ c) = a"
  by simp

lemma match_here_LogLine:
  "match_here LogLinePattern s =
     (if fits ''L dd/dd/dddd - dd:dd:dd: '' (take 25 s)
      then Some [take 25 s @ takeWhile (\<lambda>c. c \<noteq> newline) (drop 25 s),
                 take 21 (drop 2 s),
                 takeWhile (\<lambda>c. c \<noteq> newline) (drop 25 s)]
      else None)"
proof (cases "fits ''L dd/dd/dddd - dd:dd:dd: '' (take 25 s)")
  case False
  then show ?thesis unfolding match_here_def m_LogLine by simp
next
  case True
  from fits_length[OF True] have len: "25 \<le> length s" by simp
  have acc: "accepts Any = (\<lambda>c. c \<noteq> newline)" by (rule ext) simp
  let ?p = "takeWhile (\<lambda>c. c \<noteq> newline) (drop 25 s)"
  let ?d = "dropWhile (\<lambda>c. c \<noteq> newline) (drop 25 s)"
  have s: "s = (take 25 s @ ?p) @ ?d" by simp
  have "take (length ((take 25 s @ ?p) @ ?d) - length ?d) ((take 25 s @ ?p) @ ?d) = take 25 s @ ?p"
    by (rule take_minus_suffix)
  then have whole: "take (length s - length ?d) s = take 25 s @ ?p"
    using s by metis
  have third: "take (length s - (25 + length ?d)) (drop 25 s) = ?p"
    using take_dropWhile[of "drop 25 s" "\<lambda>c. c \<noteq> newline"] by simp
  have rep: "replicate (Suc 2) [] = [[], [], []::string]" by (simp add: numeral_2_eq_2)
  have upd: "\<And>a b c. [[], [], []::string][1 := a, 2 := b, 0 := c] = [c, a, b]"
    by (simp add: numeral_2_eq_2)
  show ?thesis
    unfolding match_here_def m_LogLine ngroups_LogLine rep using True
    by (simp add: star_Some acc third whole upd del: star.simps)
qed

section \<open>The leftmost match and the loop\<close>

lemma find_first: "match_here re s = Some r \<Longrightarrow> FindStringSubmatch re s = Some r"
  by (cases s) simp_all

lemma find_leftmost:
  "i \<le> length s \<Longrightarrow> (\<forall>j<i. match_here re (drop j s) = None) \<Longrightarrow>
     FindStringSubmatch re s = FindStringSubmatch re (drop i s)"
proof (induction s arbitrary: i)
  case Nil
  then show ?case by simp
next
  case (Cons x xs)
  show ?case
  proof (cases i)
    case 0
    then show ?thesis by simp
  next
    case (Suc n)
    with Cons.prems have here: "match_here re (x # xs) = None" by fastforce
    from Suc Cons.prems have "n \<le> length xs" by simp
    moreover from Suc Cons.prems have "\<forall>j<n. match_here re (drop j xs) = None" by fastforce
    ultimately have "FindStringSubmatch re xs = FindStringSubmatch re (drop n xs)"
      by (rule Cons.IH)
    with here Suc show ?thesis by simp
  qed
qed

lemma find_None:
  "(\<forall>j\<le>length s. match_here re (drop j s) = None) \<Longrightarrow> FindStringSubmatch re s = None"
proof (induction s)
  case Nil
  then show ?case by simp
next
  case (Cons x xs)
  from Cons.prems have here: "match_here re (x # xs) = None" by fastforce
  from Cons.prems have "\<forall>j\<le>length xs. match_here re (drop j xs) = None" by fastforce
  from Cons.IH[OF this] here show ?case by simp
qed

lemma prefix_at_bound: "prefix_at line i \<Longrightarrow> i + 25 \<le> length line"
  unfolding prefix_at_def using fits_length by fastforce

lemma find_LogLine_None:
  assumes "\<forall>i. \<not> prefix_at line i"
  shows "FindStringSubmatch LogLinePattern line = None"
  by (rule find_None) (use assms in \<open>simp add: match_here_LogLine prefix_at_def\<close>)

lemma find_LogLine_Some:
  assumes "prefix_at line i" and "\<forall>j<i. \<not> prefix_at line j"
  shows "FindStringSubmatch LogLinePattern line =
           Some [take 25 (drop i line) @ takeWhile (\<lambda>c. c \<noteq> newline) (drop (i + 25) line),
                 take 21 (drop (i + 2) line),
                 takeWhile (\<lambda>c. c \<noteq> newline) (drop (i + 25) line)]"
proof -
  from prefix_at_bound[OF assms(1)] have "i \<le> length line" by simp
  moreover from assms(2) have "\<forall>j<i. match_here LogLinePattern (drop j line) = None"
    by (simp add: match_here_LogLine prefix_at_def)
  ultimately have "FindStringSubmatch LogLinePattern line
      = FindStringSubmatch LogLinePattern (drop i line)"
    by (rule find_leftmost)
  also have "\<dots> = Some [take 25 (drop i line) @ takeWhile (\<lambda>c. c \<noteq> newline) (drop (i + 25) line),
                 take 21 (drop (i + 2) line),
                 takeWhile (\<lambda>c. c \<noteq> newline) (drop (i + 25) line)]"
    by (rule find_first) (use assms(1) in \<open>simp add: match_here_LogLine prefix_at_def add.commute\<close>)
  finally show ?thesis .
qed

lemma range_none:
  "(\<forall>p \<in> set ps. FindStringSubmatch (fst p) (result ! 2) = None) \<Longrightarrow>
     range_patterns ti result ps = NewUnknown ti (tl result)"
  by (induction ps) auto

lemma range_unique:
  assumes "i \<in> set order"
    and "FindStringSubmatch (fst (T ! i)) (result ! 2) = Some r"
    and "\<forall>j \<in> set order. j \<noteq> i \<longrightarrow> FindStringSubmatch (fst (T ! j)) (result ! 2) = None"
  shows "range_patterns ti result (map (\<lambda>i. T ! i) order) = snd (T ! i) ti r"
  using assms
proof (induction order)
  case Nil
  then show ?case by simp
next
  case (Cons a order)
  show ?case
  proof (cases "a = i")
    case True
    with Cons.prems(2) show ?thesis by (cases "T ! i") simp
  next
    case False
    with Cons.prems have "FindStringSubmatch (fst (T ! a)) (result ! 2) = None" by simp
    moreover from False Cons.prems have "i \<in> set order" by simp
    ultimately show ?thesis using Cons.IH Cons.prems by (cases "T ! a") simp
  qed
qed

lemma range_origin:
  "range_patterns ti result ps = res \<Longrightarrow>
     (\<exists>p \<in> set ps. \<exists>r. FindStringSubmatch (fst p) (result ! 2) = Some r \<and> res = snd p ti r)
     \<or> res = NewUnknown ti (tl result)"
proof (induction ps)
  case Nil
  then show ?case by simp
next
  case (Cons p ps)
  then show ?case by (cases p) (auto split: option.splits)
qed

section \<open>The entries of the table\<close>

lemmas pattern_defs =
  ServerMessagePattern_def FreezTimeStartPattern_def WorldMatchStartPattern_def
  WorldRoundStartPattern_def WorldRoundRestartPattern_def WorldRoundEndPattern_def
  WorldGameCommencingPattern_def TeamScoredPattern_def TeamNoticePattern_def
  PlayerConnectedPattern_def PlayerDisconnectedPattern_def PlayerEnteredPattern_def
  PlayerBannedPattern_def PlayerSwitchedPattern_def PlayerSayPattern_def
  PlayerPurchasePattern_def PlayerKillPattern_def PlayerKillAssistPattern_def
  PlayerAttackPattern_def PlayerKilledBombPattern_def PlayerKilledSuicidePattern_def
  PlayerPickedUpPattern_def PlayerDroppedPattern_def PlayerMoneyChangePattern_def
  PlayerBombGotPattern_def PlayerBombPlantedPattern_def PlayerBombDroppedPattern_def
  PlayerBombBeginDefusePattern_def PlayerBombDefusedPattern_def PlayerThrewPattern_def
  PlayerBlindedPattern_def ProjectileSpawnedPattern_def GameOverPattern_def
  ServerCvarPattern_def Get5EventPattern_def RconEventPattern_def PlayerKillOtherPattern_def

lemmas extractor_defs =
  NewServerMessage_def NewFreezTimeStart_def NewWorldMatchStart_def NewWorldRoundStart_def
  NewWorldRoundRestart_def NewWorldRoundEnd_def NewWorldGameCommencing_def NewTeamScored_def
  NewTeamNotice_def NewPlayerConnected_def NewPlayerDisconnected_def NewPlayerEntered_def
  NewPlayerBanned_def NewPlayerSwitched_def NewPlayerSay_def NewPlayerPurchase_def
  NewPlayerKill_def NewPlayerKillAssist_def NewPlayerAttack_def NewPlayerKilledBomb_def
  NewPlayerKilledSuicide_def NewPlayerPickedUp_def NewPlayerDropped_def
  NewPlayerMoneyChange_def NewPlayerBombGot_def NewPlayerBombPlanted_def
  NewPlayerBombDropped_def NewPlayerBombBeginDefuse_def NewPlayerBombDefused_def
  NewPlayerThrew_def NewPlayerBlinded_def NewProjectileSpawned_def NewGameOver_def
  NewServerCvar_def NewGet5Event_def NewRconEvent_def NewPlayerKillOther_def NewUnknown_def

lemma length_DefaultPatterns: "length (DefaultPatterns lib) = 37"
  by (simp add: DefaultPatterns_def)

lemma ngroups_table:
  "map (\<lambda>p. ngroups (fst p)) (DefaultPatterns lib) =
     [1, 0, 1, 0, 1, 0, 0, 3, 4, 4, 5, 3, 5, 5, 6, 5, 17, 8, 20, 7, 8, 5, 5, 9, 4, 4, 4, 5, 4,
      10, 10, 6, 6, 2, 4, 3, 13]"
  by (simp add: DefaultPatterns_def pattern_defs)

lemma table_total:
  "\<forall>p \<in> set (DefaultPatterns lib). \<forall>r.
      length r = Suc (ngroups (fst p)) \<longrightarrow> snd p ti r \<noteq> None"
  by (simp add: DefaultPatterns_def pattern_defs extractor_defs split: sum.splits)

lemma table_meta:
  "\<forall>p \<in> set (DefaultPatterns lib). \<forall>r msg.
      snd p ti r = Some msg \<longrightarrow> Time (meta msg) = ti \<and> Type (meta msg) \<noteq> ''''"
  by (auto simp add: DefaultPatterns_def extractor_defs NewMeta_def split: sum.splits if_splits)

section \<open>What Parse computes\<close>

lemma table_totalD:
  "(re, fn) \<in> set (DefaultPatterns lib) \<Longrightarrow> length r = Suc (ngroups re) \<Longrightarrow> fn ti r \<noteq> None"
  using table_total[of lib ti] by fastforce

lemma table_metaD:
  "(re, fn) \<in> set (DefaultPatterns lib) \<Longrightarrow> fn ti r = Some msg \<Longrightarrow>
     Time (meta msg) = ti \<and> Type (meta msg) \<noteq> ''''"
  using table_meta[of lib ti] by fastforce

lemma order_set: "iteration_order n order \<Longrightarrow> set order = {0..<n}"
  unfolding iteration_order_def by (metis set_sort set_upt)

lemma table_nth: "j < 37 \<Longrightarrow> DefaultPatterns lib ! j \<in> set (DefaultPatterns lib)"
  by (simp add: length_DefaultPatterns)

lemma table_map_set:
  "iteration_order 37 order \<Longrightarrow>
     set (map (\<lambda>i. DefaultPatterns lib ! i) order) = set (DefaultPatterns lib)"
proof -
  assume "iteration_order 37 order"
  then have "set order = {0..<length (DefaultPatterns lib)}"
    by (simp add: order_set length_DefaultPatterns)
  then have "set (map (\<lambda>i. DefaultPatterns lib ! i) order)
      = (\<lambda>i. DefaultPatterns lib ! i) ` {0..<length (DefaultPatterns lib)}" by simp
  also have "\<dots> = set (DefaultPatterns lib)" by (simp add: nth_image)
  finally show ?thesis .
qed

lemma Parse_at_err:
  assumes "prefix_at line i" and "\<forall>j<i. \<not> prefix_at line j"
    and "time_Parse (take 21 (drop (i + 2) line)) = Inl err"
  shows "Parse lib order line = Some (Inl err)"
  unfolding Parse_def ParseWithPatterns_def find_LogLine_Some[OF assms(1,2)]
  using assms(3) by simp

lemma Parse_at_ok:
  assumes "prefix_at line i" and "\<forall>j<i. \<not> prefix_at line j"
    and "time_Parse (take 21 (drop (i + 2) line)) = Inr ti"
  shows "Parse lib order line =
     map_option Inr
       (range_patterns ti
          [take 25 (drop i line) @ takeWhile (\<lambda>c. c \<noteq> newline) (drop (i + 25) line),
           take 21 (drop (i + 2) line),
           takeWhile (\<lambda>c. c \<noteq> newline) (drop (i + 25) line)]
          (map (\<lambda>i. DefaultPatterns lib ! i) order))"
  unfolding Parse_def ParseWithPatterns_def find_LogLine_Some[OF assms(1,2)]
  using assms(3) by simp

lemma range_table_total:
  assumes "set ps \<subseteq> set (DefaultPatterns lib)"
  shows "\<exists>msg. range_patterns ti [w, ts, p] ps = Some msg"
proof -
  from range_origin[of ti "[w, ts, p]" ps, OF refl]
  consider (hit) q r where "q \<in> set ps" "FindStringSubmatch (fst q) ([w, ts, p] ! 2) = Some r"
      "range_patterns ti [w, ts, p] ps = snd q ti r"
    | (miss) "range_patterns ti [w, ts, p] ps = NewUnknown ti (tl [w, ts, p])"
    by blast
  then show ?thesis
  proof cases
    case hit
    from hit(2) have "length r = Suc (ngroups (fst q))" by (rule find_length)
    moreover from hit(1) assms have "(fst q, snd q) \<in> set (DefaultPatterns lib)" by auto
    ultimately have "snd q ti r \<noteq> None" using table_totalD by blast
    with hit(3) show ?thesis by auto
  next
    case miss
    then show ?thesis by (simp add: NewUnknown_def)
  qed
qed

lemma range_table_meta:
  assumes "set ps \<subseteq> set (DefaultPatterns lib)"
    and "range_patterns ti [w, ts, p] ps = Some msg"
  shows "Time (meta msg) = ti \<and> Type (meta msg) \<noteq> ''''"
proof -
  from range_origin[OF assms(2)]
  consider (hit) q r where "q \<in> set ps" "Some msg = snd q ti r"
    | (miss) "Some msg = NewUnknown ti (tl [w, ts, p])"
    by blast
  then show ?thesis
  proof cases
    case hit
    from hit(1) assms(1) have "(fst q, snd q) \<in> set (DefaultPatterns lib)" by auto
    from table_metaD[OF this hit(2)[symmetric]] show ?thesis .
  next
    case miss
    then show ?thesis by (auto simp add: NewUnknown_def NewMeta_def)
  qed
qed

lemma Parse_at_msg:
  assumes "prefix_at line i \<and> (\<forall>j<i. \<not> prefix_at line j)"
    and "time_Parse (take 21 (drop (i + 2) line)) = Inr ti"
    and "iteration_order 37 order"
  shows "\<exists>msg. Parse lib order line = Some (Inr msg)"
proof -
  from assms(3) have "set (map (\<lambda>i. DefaultPatterns lib ! i) order) = set (DefaultPatterns lib)"
    by (rule table_map_set)
  then have "set (map (\<lambda>i. DefaultPatterns lib ! i) order) \<subseteq> set (DefaultPatterns lib)"
    by (rule equalityD1)
  from range_table_total[OF this] obtain msg where "range_patterns ti
          [take 25 (drop i line) @ takeWhile (\<lambda>c. c \<noteq> newline) (drop (i + 25) line),
           take 21 (drop (i + 2) line),
           takeWhile (\<lambda>c. c \<noteq> newline) (drop (i + 25) line)]
          (map (\<lambda>i. DefaultPatterns lib ! i) order) = Some msg" by blast
  with assms(1,2) Parse_at_ok[of line i ti lib order] have "Parse lib order line = Some (Inr msg)"
    by simp
  then show ?thesis by blast
qed

lemma Parse_msg_origin:
  assumes "Parse lib order line = Some (Inr msg)"
  shows "\<exists>i ti. prefix_at line i \<and> (\<forall>j<i. \<not> prefix_at line j)
      \<and> time_Parse (take 21 (drop (i + 2) line)) = Inr ti
      \<and> range_patterns ti
          [take 25 (drop i line) @ takeWhile (\<lambda>c. c \<noteq> newline) (drop (i + 25) line),
           take 21 (drop (i + 2) line),
           takeWhile (\<lambda>c. c \<noteq> newline) (drop (i + 25) line)]
          (map (\<lambda>i. DefaultPatterns lib ! i) order) = Some msg"
proof -
  have "\<exists>i. prefix_at line i"
  proof (rule ccontr)
    assume "\<not> (\<exists>i. prefix_at line i)"
    then have "FindStringSubmatch LogLinePattern line = None"
      by (intro find_LogLine_None) simp
    with assms show False by (simp add: Parse_def ParseWithPatterns_def)
  qed
  then obtain i where i: "prefix_at line i" "\<forall>j<i. \<not> prefix_at line j"
    using exists_least_iff[of "prefix_at line"] by blast
  show ?thesis
  proof (cases "time_Parse (take 21 (drop (i + 2) line))")
    case (Inl err)
    from Parse_at_err[OF i Inl] assms show ?thesis by simp
  next
    case (Inr ti)
    have inj: "\<And>x. Some (Inr msg) = map_option Inr x \<Longrightarrow> x = Some msg"
    proof -
      fix x :: "Message option"
      assume "Some (Inr msg) = map_option Inr x"
      then show "x = Some msg" by (cases x) auto
    qed
    from Parse_at_ok[OF i Inr, of lib order] assms
    have "range_patterns ti
          [take 25 (drop i line) @ takeWhile (\<lambda>c. c \<noteq> newline) (drop (i + 25) line),
           take 21 (drop (i + 2) line),
           takeWhile (\<lambda>c. c \<noteq> newline) (drop (i + 25) line)]
          (map (\<lambda>i. DefaultPatterns lib ! i) order) = Some msg"
      by (intro inj) simp
    with i Inr show ?thesis by blast
  qed
qed

section \<open>Evaluation on concrete lines\<close>

lemma m_eval:
  "m Eps [] cs k = k [] cs"
  "m Eps (x # xs) cs k = k (x # xs) cs"
  "m (Atom c) [] cs k = None"
  "m (Atom c) (x # xs) cs k = (if accepts c x then k xs cs else None)"
  "m (Cat a b) [] cs k = m a [] cs (\<lambda>s' cs'. m b s' cs' k)"
  "m (Cat a b) (x # xs) cs k = m a (x # xs) cs (\<lambda>s' cs'. m b s' cs' k)"
  "m (Alt a b) [] cs k = (case m a [] cs k of Some r \<Rightarrow> Some r | None \<Rightarrow> m b [] cs k)"
  "m (Alt a b) (x # xs) cs k =
     (case m a (x # xs) cs k of Some r \<Rightarrow> Some r | None \<Rightarrow> m b (x # xs) cs k)"
  "m (Star c) [] cs k = k [] cs"
  "m (Star c) (x # xs) cs k = star c (x # xs) (\<lambda>s'. k s' cs)"
  "m (Opt a) [] cs k = (case m a [] cs k of Some r \<Rightarrow> Some r | None \<Rightarrow> k [] cs)"
  "m (Opt a) (x # xs) cs k =
     (case m a (x # xs) cs k of Some r \<Rightarrow> Some r | None \<Rightarrow> k (x # xs) cs)"
  "m (Group n a) [] cs k = m a [] cs (\<lambda>s' cs'. k s' (cs'[n := take (0 - length s') []]))"
  "m (Group n a) (x # xs) cs k =
     m a (x # xs) cs (\<lambda>s' cs'. k s' (cs'[n := take (length (x # xs) - length s') (x # xs)]))"
  by simp_all

lemmas re_defs = Seq_def Str_def Plus_def match_here_def is_digit_def is_word_def newline_def

lemma all_table:
  "(\<forall>j<37. P (DefaultPatterns lib ! j)) = list_all P (DefaultPatterns lib)"
  by (simp add: list_all_length length_DefaultPatterns)


lemma table_in_order:
  "map (\<lambda>i. DefaultPatterns lib ! i) [0..<37] = DefaultPatterns lib"
  using map_nth[of "DefaultPatterns lib"] by (simp add: length_DefaultPatterns)

lemmas parse_eval =
  ParseWithPatterns_def LogLinePattern_def DefaultPatterns_def pattern_defs re_defs m_eval
  time_Parse_def fits_def decimal_def digit_val_def daysIn_def isLeap_def
  extractor_defs NewMeta_def toInt_def Atoi_def

lemma upt_37:
  "[0..<37] =
     [0, 1, 2, 3, 4, 5, 6, 7, 8, 9, 10, 11, 12, 13, 14, 15, 16, 17, 18, 19, 20, 21, 22, 23, 24,
      25, 26, 27, 28, 29, 30, 31, 32, 33, 34, 35, 36]"
  by code_simp

lemma all_less_37:
  "(\<forall>j<37::nat. Q j) =
     list_all Q
       [0, 1, 2, 3, 4, 5, 6, 7, 8, 9, 10, 11, 12, 13, 14, 15, 16, 17, 18, 19, 20, 21, 22, 23, 24,
        25, 26, 27, 28, 29, 30, 31, 32, 33, 34, 35, 36]"
proof -
  have "(\<forall>j<37::nat. Q j) = list_all Q [0..<37]" by (auto simp add: list_all_iff)
  then show ?thesis unfolding upt_37 .
qed

section \<open>Lines that no pattern recognises\<close>

text \<open>
  Claim C1. Take a line whose first timestamp prefix stands at position \<open>i\<close> and holds a
  valid date and time \<open>ti\<close>, and let the payload be the text after the prefix up to the end
  of the line. If none of the 37 patterns of the default table matches the payload, then
  Parse returns, for every iteration order of the table, the Unknown message with time
  \<open>ti\<close>, type tag "Unknown" and the payload itself as Raw. In a line without a line feed
  the payload is everything after the prefix.
\<close>

theorem unknown_carries_payload:
  assumes "prefix_at line i" and "\<forall>j<i. \<not> prefix_at line j"
    and "time_Parse (take 21 (drop (i + 2) line)) = Inr ti"
    and "payload = takeWhile (\<lambda>c. c \<noteq> newline) (drop (i + 25) line)"
    and "\<forall>j<37. FindStringSubmatch (fst (DefaultPatterns lib ! j)) payload = None"
    and "iteration_order 37 order"
  shows "Parse lib order line = Some (Inr (Unknown \<lparr>Time = ti, Type = ''Unknown''\<rparr> payload))
    \<and> (newline \<notin> set line \<longrightarrow> payload = drop (i + 25) line)"
proof
  from assms(6) have "set order = {0..<37}" by (rule order_set)
  with assms(5) have "\<forall>p \<in> set (map (\<lambda>i. DefaultPatterns lib ! i) order).
      FindStringSubmatch (fst p) payload = None" by auto
  then have "range_patterns ti
        [take 25 (drop i line) @ payload, take 21 (drop (i + 2) line), payload]
        (map (\<lambda>i. DefaultPatterns lib ! i) order)
      = NewUnknown ti (tl [take 25 (drop i line) @ payload, take 21 (drop (i + 2) line), payload])"
    by (intro range_none) simp
  then show "Parse lib order line = Some (Inr (Unknown \<lparr>Time = ti, Type = ''Unknown''\<rparr> payload))"
    unfolding Parse_at_ok[OF assms(1,2,3)] assms(4)[symmetric]
    by (simp add: NewUnknown_def NewMeta_def)
  show "newline \<notin> set line \<longrightarrow> payload = drop (i + 25) line"
    unfolding assms(4) by (auto simp add: takeWhile_eq_all_conv dest: in_set_dropD)
qed

theorem unknown_carries_payload_witness:
  \<open>Parse minimal_lib [0..<37]
      ''L 10/15/2022 - 18:32:00: some totally unrecognized freeform text'' =
     Some (Inr (Unknown
       \<lparr>Time = \<lparr>Year = 2022, Month = 10, Day = 15, Hour = 18, Minute = 32, Second = 0\<rparr>,
        Type = ''Unknown''\<rparr>
       ''some totally unrecognized freeform text''))\<close>
proof -
  let ?line = "''L 10/15/2022 - 18:32:00: some totally unrecognized freeform text''"
  let ?payload = "''some totally unrecognized freeform text''"
  have h1: "prefix_at ?line 0"
    by (simp add: prefix_at_def fits_def is_digit_def)
  have h2: "\<forall>j<0. \<not> prefix_at ?line j" by simp
  have h3: "time_Parse (take 21 (drop (0 + 2) ?line)) =
      Inr \<lparr>Year = 2022, Month = 10, Day = 15, Hour = 18, Minute = 32, Second = 0\<rparr>"
    by (simp add: time_Parse_def fits_def is_digit_def decimal_def digit_val_def daysIn_def
        isLeap_def)
  have h4: "?payload = takeWhile (\<lambda>c. c \<noteq> newline) (drop (0 + 25) ?line)"
    by (simp add: newline_def)
  have h5: "\<forall>j<37. FindStringSubmatch (fst (DefaultPatterns minimal_lib ! j)) ?payload = None"
    unfolding all_table[of "\<lambda>p. FindStringSubmatch (fst p) ?payload = None"]
    by (simp add: DefaultPatterns_def pattern_defs re_defs m_eval del: m.simps)
  have h6: "iteration_order 37 [0..<37]" by (simp add: iteration_order_def)
  from unknown_carries_payload[OF h1 h2 h3 h4 h5 h6] show ?thesis by simp
qed

section \<open>The hard failure\<close>

text \<open>
  Claim C2. For every iteration order of the table: a line that holds no timestamp prefix
  at any position makes Parse return the error "no match"; a line whose first prefix holds
  a date or time that \<open>time_Parse\<close> rejects makes Parse return that error; and a line
  whose first prefix holds a valid date and time makes Parse return a message. Parse
  returns in each case (it does not panic), so it returns an error exactly when the line
  has no prefix or the first prefix is not a valid date and time.
\<close>

theorem error_iff_bad_prefix:
  assumes "iteration_order 37 order"
  shows "((\<forall>i. \<not> prefix_at line i) \<longrightarrow> Parse lib order line = Some (Inl ErrorNoMatch))
    \<and> (prefix_at line i \<and> (\<forall>j<i. \<not> prefix_at line j) \<longrightarrow>
         (\<forall>err. time_Parse (take 21 (drop (i + 2) line)) = Inl err \<longrightarrow>
            Parse lib order line = Some (Inl err))
       \<and> (\<forall>ti. time_Parse (take 21 (drop (i + 2) line)) = Inr ti \<longrightarrow>
            (\<exists>msg. Parse lib order line = Some (Inr msg))))"
proof (intro conjI impI allI)
  assume "\<forall>i. \<not> prefix_at line i"
  then show "Parse lib order line = Some (Inl ErrorNoMatch)"
    by (simp add: Parse_def ParseWithPatterns_def find_LogLine_None)
next
  fix err
  assume "prefix_at line i \<and> (\<forall>j<i. \<not> prefix_at line j)"
    and "time_Parse (take 21 (drop (i + 2) line)) = Inl err"
  then show "Parse lib order line = Some (Inl err)"
    by (blast intro: Parse_at_err)
next
  fix ti
  assume p: "prefix_at line i \<and> (\<forall>j<i. \<not> prefix_at line j)"
    and t: "time_Parse (take 21 (drop (i + 2) line)) = Inr ti"
  with assms show "\<exists>msg. Parse lib order line = Some (Inr msg)"
    by (blast intro: Parse_at_msg)
qed

theorem error_iff_bad_prefix_witness:
  "Parse minimal_lib [0..<37] ''no timestamp here'' = Some (Inl ErrorNoMatch)
   \<and> Parse minimal_lib [0..<37] ''L 13/15/2022 - 18:32:00: x'' = Some (Inl TimeParseError)
   \<and> (\<exists>msg. Parse minimal_lib [0..<37] ''L 10/15/2022 - 18:32:00: x'' = Some (Inr msg))"
proof -
  have o: "iteration_order 37 [0..<37]" by (simp add: iteration_order_def)
  have a: "\<forall>i. \<not> prefix_at ''no timestamp here'' i"
  proof (intro allI notI)
    fix i
    assume "prefix_at ''no timestamp here'' i"
    from prefix_at_bound[OF this] show False by simp
  qed
  have b: "prefix_at ''L 13/15/2022 - 18:32:00: x'' 0
      \<and> (\<forall>j<0. \<not> prefix_at ''L 13/15/2022 - 18:32:00: x'' j)"
    by (simp add: prefix_at_def fits_def is_digit_def)
  have b': "time_Parse (take 21 (drop (0 + 2) ''L 13/15/2022 - 18:32:00: x'')) = Inl TimeParseError"
    by (simp add: time_Parse_def fits_def is_digit_def decimal_def digit_val_def)
  have c: "prefix_at ''L 10/15/2022 - 18:32:00: x'' 0
      \<and> (\<forall>j<0. \<not> prefix_at ''L 10/15/2022 - 18:32:00: x'' j)"
    by (simp add: prefix_at_def fits_def is_digit_def)
  have c': "time_Parse (take 21 (drop (0 + 2) ''L 10/15/2022 - 18:32:00: x'')) =
      Inr \<lparr>Year = 2022, Month = 10, Day = 15, Hour = 18, Minute = 32, Second = 0\<rparr>"
    by (simp add: time_Parse_def fits_def is_digit_def decimal_def digit_val_def daysIn_def
        isLeap_def)
  from error_iff_bad_prefix[OF o, of "''no timestamp here''" minimal_lib] a
  have 1: "Parse minimal_lib [0..<37] ''no timestamp here'' = Some (Inl ErrorNoMatch)"
    by blast
  from error_iff_bad_prefix[OF o, of "''L 13/15/2022 - 18:32:00: x''" minimal_lib 0] b b'
  have 2: "Parse minimal_lib [0..<37] ''L 13/15/2022 - 18:32:00: x'' = Some (Inl TimeParseError)"
    by blast
  from error_iff_bad_prefix[OF o, of "''L 10/15/2022 - 18:32:00: x''" minimal_lib 0] c c'
  have 3: "\<exists>msg. Parse minimal_lib [0..<37] ''L 10/15/2022 - 18:32:00: x'' = Some (Inr msg)"
    by blast
  from 1 2 3 show ?thesis by blast
qed

section \<open>A prefix anywhere in the line\<close>

text \<open>
  Claim C10 says that Parse succeeds on every line that contains a timestamp prefix. It
  does not on the line below: the first text of the prefix grammar holds month 99, so
  \<open>time_Parse\<close> fails and Parse returns its error, although a prefix with a valid date and
  time stands at position 25.
\<close>

theorem first_prefix_invalid_counterexample:
  "prefix_at ''L 99/99/9999 - 99:99:99: L 10/15/2022 - 18:30:30: hello'' 25
   \<and> time_Parse (take 21 (drop 27 ''L 99/99/9999 - 99:99:99: L 10/15/2022 - 18:30:30: hello''))
       = Inr \<lparr>Year = 2022, Month = 10, Day = 15, Hour = 18, Minute = 30, Second = 30\<rparr>
   \<and> iteration_order 37 [0..<37]
   \<and> Parse minimal_lib [0..<37] ''L 99/99/9999 - 99:99:99: L 10/15/2022 - 18:30:30: hello''
       = Some (Inl TimeParseError)"
proof -
  let ?line = "''L 99/99/9999 - 99:99:99: L 10/15/2022 - 18:30:30: hello''"
  have 1: "prefix_at ?line 25" by (simp add: prefix_at_def fits_def is_digit_def)
  have 2: "time_Parse (take 21 (drop 27 ?line))
      = Inr \<lparr>Year = 2022, Month = 10, Day = 15, Hour = 18, Minute = 30, Second = 30\<rparr>"
    by (simp add: time_Parse_def fits_def is_digit_def decimal_def digit_val_def daysIn_def
        isLeap_def)
  have 3: "iteration_order 37 [0..<37]" by (simp add: iteration_order_def)
  have a: "prefix_at ?line 0" by (simp add: prefix_at_def fits_def is_digit_def)
  have b: "\<forall>j<0. \<not> prefix_at ?line j" by simp
  have c: "time_Parse (take 21 (drop (0 + 2) ?line)) = Inl TimeParseError"
    by (simp add: time_Parse_def fits_def is_digit_def decimal_def digit_val_def)
  from Parse_at_err[OF a b c] have 4: "Parse minimal_lib [0..<37] ?line = Some (Inl TimeParseError)" .
  from 1 2 3 4 show ?thesis by blast
qed

text \<open>
  Claim C10, amended. The prefix need not start the line: Parse takes the first position
  \<open>i\<close> at which the prefix grammar matches, whatever precedes it. When the date and time
  there are valid, Parse returns a message for every iteration order of the table, and the
  payload that the loop over the table sees, and that an Unknown message carries, is the
  text after that prefix up to the end of the line. When they are not valid, Parse
  returns the error of \<open>time_Parse\<close>, also when a later prefix is valid.
\<close>

theorem first_prefix_decides:
  assumes "prefix_at line i" and "\<forall>j<i. \<not> prefix_at line j"
    and "iteration_order 37 order"
  shows "(\<forall>ti. time_Parse (take 21 (drop (i + 2) line)) = Inr ti \<longrightarrow>
            (\<exists>msg. Parse lib order line = Some (Inr msg))
          \<and> Parse lib order line =
              map_option Inr
                (range_patterns ti
                   [take 25 (drop i line) @ takeWhile (\<lambda>c. c \<noteq> newline) (drop (i + 25) line),
                    take 21 (drop (i + 2) line),
                    takeWhile (\<lambda>c. c \<noteq> newline) (drop (i + 25) line)]
                   (map (\<lambda>i. DefaultPatterns lib ! i) order)))
       \<and> (\<forall>err. time_Parse (take 21 (drop (i + 2) line)) = Inl err \<longrightarrow>
            Parse lib order line = Some (Inl err))"
proof (intro conjI allI impI)
  fix ti
  assume t: "time_Parse (take 21 (drop (i + 2) line)) = Inr ti"
  from assms(1,2) have "prefix_at line i \<and> (\<forall>j<i. \<not> prefix_at line j)" by simp
  from Parse_at_msg[OF this t assms(3)] show "\<exists>msg. Parse lib order line = Some (Inr msg)" .
  from Parse_at_ok[OF assms(1,2) t]
  show "Parse lib order line =
      map_option Inr
        (range_patterns ti
           [take 25 (drop i line) @ takeWhile (\<lambda>c. c \<noteq> newline) (drop (i + 25) line),
            take 21 (drop (i + 2) line),
            takeWhile (\<lambda>c. c \<noteq> newline) (drop (i + 25) line)]
           (map (\<lambda>i. DefaultPatterns lib ! i) order))" .
next
  fix err
  assume "time_Parse (take 21 (drop (i + 2) line)) = Inl err"
  from Parse_at_err[OF assms(1,2) this] show "Parse lib order line = Some (Inl err)" .
qed

theorem first_prefix_decides_witness:
  "Parse minimal_lib [0..<37] ''say: L 10/15/2022 - 18:32:00: hi'' =
     Some (Inr (Unknown
       \<lparr>Time = \<lparr>Year = 2022, Month = 10, Day = 15, Hour = 18, Minute = 32, Second = 0\<rparr>,
        Type = ''Unknown''\<rparr> ''hi''))
   \<and> Parse minimal_lib [0..<37] ''say: L 10/15/2022 - 18:32:60: hi'' = Some (Inl TimeParseError)"
proof -
  let ?line = "''say: L 10/15/2022 - 18:32:00: hi''"
  let ?bad = "''say: L 10/15/2022 - 18:32:60: hi''"
  let ?ti = "\<lparr>Year = 2022, Month = 10, Day = 15, Hour = 18, Minute = 32, Second = 0\<rparr>"
  have o: "iteration_order 37 [0..<37]" by (simp add: iteration_order_def)
  have five: "\<And>P. (\<forall>j<5. P j) = (P 0 \<and> P 1 \<and> P 2 \<and> P 3 \<and> P (4::nat))"
    by (auto simp add: eval_nat_numeral less_Suc_eq)
  have a: "prefix_at ?line 5" by (simp add: prefix_at_def fits_def is_digit_def)
  have b: "\<forall>j<5. \<not> prefix_at ?line j"
    unfolding five by (simp add: prefix_at_def fits_def is_digit_def)
  have c: "time_Parse (take 21 (drop (5 + 2) ?line)) = Inr ?ti"
    by (simp add: time_Parse_def fits_def is_digit_def decimal_def digit_val_def daysIn_def
        isLeap_def)
  have a': "prefix_at ?bad 5" by (simp add: prefix_at_def fits_def is_digit_def)
  have b': "\<forall>j<5. \<not> prefix_at ?bad j"
    unfolding five by (simp add: prefix_at_def fits_def is_digit_def)
  have c': "time_Parse (take 21 (drop (5 + 2) ?bad)) = Inl TimeParseError"
    by (simp add: time_Parse_def fits_def is_digit_def decimal_def digit_val_def daysIn_def
        isLeap_def)
  have run: "range_patterns ?ti
       [take 25 (drop 5 ?line) @ takeWhile (\<lambda>c. c \<noteq> newline) (drop (5 + 25) ?line),
        take 21 (drop (5 + 2) ?line),
        takeWhile (\<lambda>c. c \<noteq> newline) (drop (5 + 25) ?line)]
       (map (\<lambda>i. DefaultPatterns minimal_lib ! i) [0..<37])
     = Some (Unknown \<lparr>Time = ?ti, Type = ''Unknown''\<rparr> ''hi'')"
    unfolding table_in_order
    by (simp add: DefaultPatterns_def pattern_defs re_defs m_eval
        NewUnknown_def NewMeta_def del: m.simps)
  from first_prefix_decides[OF a b o, of minimal_lib] c run
  have 1: "Parse minimal_lib [0..<37] ?line = Some (Inr (Unknown \<lparr>Time = ?ti, Type = ''Unknown''\<rparr> ''hi''))"
    by simp
  from first_prefix_decides[OF a' b' o, of minimal_lib] c'
  have 2: "Parse minimal_lib [0..<37] ?bad = Some (Inl TimeParseError)"
    by blast
  from 1 2 show ?thesis by blast
qed

section \<open>Type tag and time of every message\<close>

text \<open>
  Claim C8. Every message that Parse returns, for any iteration order of the table, has a
  type tag that is not the empty string, and its time is the value that \<open>time_Parse\<close>
  gives for the date and time of the line's first timestamp prefix.
\<close>

theorem message_has_type_and_time:
  assumes "Parse lib order line = Some (Inr msg)" and "iteration_order 37 order"
  shows "Type (meta msg) \<noteq> ''''
    \<and> (\<exists>i. prefix_at line i \<and> (\<forall>j<i. \<not> prefix_at line j)
           \<and> time_Parse (take 21 (drop (i + 2) line)) = Inr (Time (meta msg)))"
proof -
  from Parse_msg_origin[OF assms(1)] obtain i ti
    where i: "prefix_at line i" "\<forall>j<i. \<not> prefix_at line j"
      and ti: "time_Parse (take 21 (drop (i + 2) line)) = Inr ti"
      and run: "range_patterns ti
          [take 25 (drop i line) @ takeWhile (\<lambda>c. c \<noteq> newline) (drop (i + 25) line),
           take 21 (drop (i + 2) line),
           takeWhile (\<lambda>c. c \<noteq> newline) (drop (i + 25) line)]
          (map (\<lambda>i. DefaultPatterns lib ! i) order) = Some msg"
    by blast
  from assms(2) have "set (map (\<lambda>i. DefaultPatterns lib ! i) order) = set (DefaultPatterns lib)"
    by (rule table_map_set)
  then have "set (map (\<lambda>i. DefaultPatterns lib ! i) order) \<subseteq> set (DefaultPatterns lib)"
    by (rule equalityD1)
  from range_table_meta[OF this run] have m: "Time (meta msg) = ti" "Type (meta msg) \<noteq> ''''"
    by simp_all
  from i ti m(1) have "\<exists>i. prefix_at line i \<and> (\<forall>j<i. \<not> prefix_at line j)
      \<and> time_Parse (take 21 (drop (i + 2) line)) = Inr (Time (meta msg))" by blast
  with m(2) show ?thesis by simp
qed

theorem message_has_type_and_time_witness:
  \<open>Type (meta (PlayerPurchase
       \<lparr>Time = \<lparr>Year = 2022, Month = 10, Day = 15, Hour = 18, Minute = 30, Second = 30\<rparr>,
        Type = ''PlayerPurchase''\<rparr>
       \<lparr>Name = ''Player1'', ID = 5, SteamID = ''STEAM_1:1:111'', Side = ''CT''\<rparr>
       ''ak47'')) \<noteq> ''''
   \<and> (\<exists>i. prefix_at ''L 10/15/2022 - 18:30:30: "Player1<5><STEAM_1:1:111><CT>" purchased "ak47"'' i
          \<and> (\<forall>j<i. \<not> prefix_at
                ''L 10/15/2022 - 18:30:30: "Player1<5><STEAM_1:1:111><CT>" purchased "ak47"'' j)
          \<and> time_Parse (take 21 (drop (i + 2)
                ''L 10/15/2022 - 18:30:30: "Player1<5><STEAM_1:1:111><CT>" purchased "ak47"''))
              = Inr (Time (meta (PlayerPurchase
                  \<lparr>Time = \<lparr>Year = 2022, Month = 10, Day = 15, Hour = 18, Minute = 30,
                            Second = 30\<rparr>,
                   Type = ''PlayerPurchase''\<rparr>
                  \<lparr>Name = ''Player1'', ID = 5, SteamID = ''STEAM_1:1:111'', Side = ''CT''\<rparr>
                  ''ak47''))))\<close>
proof -
  have h1: \<open>Parse minimal_lib [0..<37]
      ''L 10/15/2022 - 18:30:30: "Player1<5><STEAM_1:1:111><CT>" purchased "ak47"'' =
    Some (Inr (PlayerPurchase
       \<lparr>Time = \<lparr>Year = 2022, Month = 10, Day = 15, Hour = 18, Minute = 30, Second = 30\<rparr>,
        Type = ''PlayerPurchase''\<rparr>
       \<lparr>Name = ''Player1'', ID = 5, SteamID = ''STEAM_1:1:111'', Side = ''CT''\<rparr>
       ''ak47''))\<close>
    unfolding Parse_def table_in_order
    by (simp add: parse_eval del: m.simps)
  have h2: "iteration_order 37 [0..<37]" by (simp add: iteration_order_def)
  from message_has_type_and_time[OF h1 h2] show ?thesis .
qed

section \<open>Numeric fields that do not parse\<close>

text \<open>
  Claim C4. Whenever \<open>Atoi\<close> returns an error for a string, \<open>toInt\<close> of that string is 0,
  and whenever \<open>ParseFloat\<close> returns an error, \<open>toFloat32\<close> is the zero float. No failed
  conversion makes an extractor fail: every extractor of the default table returns a
  message for every list of submatches that has one entry for each group of its pattern
  and one for the whole match, whatever strings the entries are.
\<close>

theorem failed_conversion_is_zero:
  "(\<forall>err. Atoi v = Inl err \<longrightarrow> toInt v = 0)
   \<and> (\<forall>err. ParseFloat lib v = Inl err \<longrightarrow> toFloat32 lib v = 0)
   \<and> (\<forall>j<37. length r = Suc (ngroups (fst (DefaultPatterns lib ! j))) \<longrightarrow>
         (\<exists>msg. snd (DefaultPatterns lib ! j) ti r = Some msg))"
proof (intro conjI allI impI)
  fix err
  assume "Atoi v = Inl err"
  then show "toInt v = 0" by (simp add: toInt_def)
next
  fix err
  assume "ParseFloat lib v = Inl err"
  then show "toFloat32 lib v = 0" by (simp add: toFloat32_def)
next
  fix j :: nat
  assume j: "j < 37" and len: "length r = Suc (ngroups (fst (DefaultPatterns lib ! j)))"
  from table_nth[OF j]
  have "(fst (DefaultPatterns lib ! j), snd (DefaultPatterns lib ! j)) \<in> set (DefaultPatterns lib)"
    by simp
  from table_totalD[OF this len] show "\<exists>msg. snd (DefaultPatterns lib ! j) ti r = Some msg"
    by auto
qed

theorem failed_conversion_is_zero_witness:
  \<open>toInt ''4x'' = 0
   \<and> toFloat32 minimal_lib ''4x'' = 0
   \<and> (\<exists>msg. snd (DefaultPatterns minimal_lib ! 7)
         \<lparr>Year = 2022, Month = 10, Day = 15, Hour = 18, Minute = 31, Second = 0\<rparr>
         [''Team "CT" scored "4x" with "99999999999999999999" players'', ''CT'', ''4x'',
          ''99999999999999999999''] = Some msg)\<close>
proof -
  let ?ti = "\<lparr>Year = 2022, Month = 10, Day = 15, Hour = 18, Minute = 31, Second = 0\<rparr>"
  let ?r = \<open>[''Team "CT" scored "4x" with "99999999999999999999" players'', ''CT'', ''4x'',
          ''99999999999999999999'']\<close>
  have a: "Atoi ''4x'' = Inl ErrSyntax" by (simp add: Atoi_def is_digit_def)
  have b: "ParseFloat minimal_lib ''4x'' = Inl ErrSyntax" by (simp add: minimal_lib_def)
  have c: "(7::nat) < 37" by simp
  have d: "length ?r = Suc (ngroups (fst (DefaultPatterns minimal_lib ! 7)))"
    by (simp add: DefaultPatterns_def TeamScoredPattern_def)
  from failed_conversion_is_zero[of "''4x''" minimal_lib ?r ?ti] a b c d
  show ?thesis by blast
qed

end
